theory Spec2Isabelle
  imports Main "HOL-Library.Sublist" "HOL-Library.Code_Target_Nat"
begin

section \<open>Python values\<close>

text \<open>
  The program is \<^verbatim>\<open>ai_cv_vertetajs.py\<close>. Its nested f-strings with a backslash in the
  expression part are accepted from Python 3.12 on, which is the language modelled here.

  A Python \<^verbatim>\<open>str\<close> is a sequence of Unicode code points, and \<^verbatim>\<open>strip\<close>, \<^verbatim>\<open>split\<close> and
  iteration work on code points, so a string is a list of code points. \<open>asc\<close> writes the
  ASCII part of a literal; the other characters of the source's literals are given by
  their code point.
\<close>

type_synonym str = "nat list"

definition asc :: "string \<Rightarrow> str" where
  "asc s = map of_char s"

text \<open>\<^verbatim>\<open>str.isspace\<close> of one code point: the characters \<^verbatim>\<open>str.strip()\<close> removes.\<close>

definition isspace :: "nat \<Rightarrow> bool" where
  "isspace c \<longleftrightarrow>
     (9 \<le> c \<and> c \<le> 13) \<or> (28 \<le> c \<and> c \<le> 32) \<or> c = 133 \<or> c = 160 \<or> c = 5760 \<or>
     (8192 \<le> c \<and> c \<le> 8202) \<or> c = 8232 \<or> c = 8233 \<or> c = 8239 \<or> c = 8287 \<or> c = 12288"

definition strip :: "str \<Rightarrow> str" where
  "strip t = rev (dropWhile isspace (rev (dropWhile isspace t)))"

text \<open>\<^verbatim>\<open>s.split(".")[0]\<close>: the part of \<open>s\<close> before its first dot, all of \<open>s\<close> when it has none.\<close>

definition split_dot_0 :: "str \<Rightarrow> str" where
  "split_dot_0 s = takeWhile (\<lambda>c. c \<noteq> 46) s"

text \<open>\<^verbatim>\<open>str(n)\<close> of an integer.\<close>

fun digits :: "nat \<Rightarrow> str" where
  "digits n = (if n < 10 then [48 + n] else digits (n div 10) @ [48 + n mod 10])"

declare digits.simps [simp del]

definition int_str :: "int \<Rightarrow> str" where
  "int_str i = (if i < 0 then 45 # digits (nat (- i)) else digits (nat i))"

text \<open>
  What \<^verbatim>\<open>json.loads\<close> can return. The program never computes with a float, it only
  prints one; a float is kept as the text \<^verbatim>\<open>repr\<close> gives for it, which is also what
  \<^verbatim>\<open>str\<close> and an f-string field give. A dict is its list of items; its keys are
  distinct, and \<open>dict_get\<close> is \<^verbatim>\<open>d.get(k, default)\<close>.
\<close>

datatype json =
    JNull
  | JBool bool
  | JInt int
  | JFloat str
  | JStr str
  | JArr "json list"
  | JObj "(str \<times> json) list"

definition dict_get :: "(str \<times> json) list \<Rightarrow> str \<Rightarrow> json \<Rightarrow> json" where
  "dict_get d k dflt = (case map_of d k of None \<Rightarrow> dflt | Some v \<Rightarrow> v)"

text \<open>
  The exceptions that can leave a function of the program. \<open>UnicodeEncodeError c i\<close>
  is raised by the UTF-8 encoder of a file for the lone surrogate \<open>c\<close> at position \<open>i\<close>
  of the text being written.
\<close>

datatype exn =
    OpenAIError str
  | AttributeError str
  | TypeError str
  | ValueError str
  | RecursionError str
  | UnicodeEncodeError nat nat

text \<open>
  A text file is opened with \<^verbatim>\<open>encoding="utf-8"\<close>. A Python string can hold a lone
  surrogate (\<^verbatim>\<open>json.loads\<close> returns one for the escape \<^verbatim>\<open>\ud83d\<close>), and the encoder
  refuses it. \<open>first_surrogate i t\<close> is the first surrogate of \<open>t\<close> and its position,
  counted from \<open>i\<close>.
\<close>

definition surrogate :: "nat \<Rightarrow> bool" where
  "surrogate c \<longleftrightarrow> 55296 \<le> c \<and> c \<le> 57343"

fun first_surrogate :: "nat \<Rightarrow> str \<Rightarrow> (nat \<times> nat) option" where
  "first_surrogate i [] = None"
| "first_surrogate i (c # cs) = (if surrogate c then Some (c, i) else first_surrogate (i + 1) cs)"

definition encodable :: "str \<Rightarrow> bool" where
  "encodable t \<longleftrightarrow> first_surrogate 0 t = None"

text \<open>
  \<^verbatim>\<open>str(i)\<close> of an integer raises \<^verbatim>\<open>ValueError\<close> when the integer has more digits than
  the limit of the interpreter, 4300 unless it is changed, which the program does not do.
\<close>

definition int_limit_msg :: str where
  "int_limit_msg =
     asc ''Exceeds the limit (4300 digits) for integer string conversion; '' @
     asc ''use sys.set_int_max_str_digits() to increase the limit''"

definition int_format :: "int \<Rightarrow> exn + str" where
  "int_format i =
     (if 4300 < length (digits (nat \<bar>i\<bar>)) then Inl (ValueError int_limit_msg) else Inr (int_str i))"

text \<open>
  \<^verbatim>\<open>for s in v\<close>: a list gives its items, a string its characters, a dict its keys; any
  other value raises \<^verbatim>\<open>TypeError\<close>.
\<close>

definition not_iterable :: "string \<Rightarrow> exn" where
  "not_iterable ty = TypeError ([39] @ asc ty @ [39] @ asc '' object is not iterable'')"

fun py_iter :: "json \<Rightarrow> exn + json list" where
  "py_iter (JArr xs) = Inr xs"
| "py_iter (JStr s) = Inr (map (\<lambda>c. JStr [c]) s)"
| "py_iter (JObj d) = Inr (map (\<lambda>kv. JStr (fst kv)) d)"
| "py_iter JNull = Inl (not_iterable ''NoneType'')"
| "py_iter (JBool b) = Inl (not_iterable ''bool'')"
| "py_iter (JInt i) = Inl (not_iterable ''int'')"
| "py_iter (JFloat x) = Inl (not_iterable ''float'')"

section \<open>The world outside the program\<close>

text \<open>
  The libraries the program calls are parameters: the OpenAI client and the completion
  service, \<^verbatim>\<open>json.loads\<close> and the encoder of \<^verbatim>\<open>json.dump\<close>, the clock and the
  \<^verbatim>\<open>repr\<close> of lists and dicts (\<open>py_repr\<close>).
  \<^item> \<open>API_KEY\<close> is \<^verbatim>\<open>os.getenv("OPENAI_API_KEY")\<close>, \<open>None\<close> when the variable is unset.
  \<^item> \<open>OpenAI k\<close> is the constructor called with \<^verbatim>\<open>api_key=k\<close>: \<open>None\<close> when it returns
    a client, \<open>Some m\<close> when it raises \<^verbatim>\<open>OpenAIError\<close> with message \<open>m\<close>.
  \<^item> \<open>chat_create n p\<close> is what the \<open>n\<close>-th interaction with the outside gives for the
    request built from prompt \<open>p\<close> (model name, temperature, system message and response
    format are the same in every request) and the read of
    \<^verbatim>\<open>response.choices[0].message.content\<close>: an exception with text \<open>str(e)\<close>, or the
    content, which the client library types as an optional string.
  \<^item> \<open>json_loads t\<close> is the outcome of \<^verbatim>\<open>json.loads(t)\<close>: the value, or
    \<^verbatim>\<open>JSONDecodeError\<close>, or another exception with text \<open>str(e)\<close> (\<^verbatim>\<open>RecursionError\<close> for
    deep nesting, \<^verbatim>\<open>ValueError\<close> for an integer literal beyond the digit limit).
  \<^item> \<open>json_dump v\<close> is what the encoder of
    \<^verbatim>\<open>json.dump(v, f, ensure_ascii=False, indent=2)\<close> does: the chunks it hands to
    \<^verbatim>\<open>f.write\<close>, in order, and the exception it raises after them, if any
    (\<^verbatim>\<open>RecursionError\<close> for a value nested deeper than the interpreter allows).
  \<^item> \<open>py_repr v\<close> is the text of \<^verbatim>\<open>repr\<close> for a list or dict, or the exception it raises.
  \<^item> \<open>strftime_now n\<close> is \<^verbatim>\<open>datetime.now().strftime("%Y-%m-%d %H:%M")\<close> at
    interaction \<open>n\<close>; the format has only numeric fields, so the result is ASCII text.
\<close>

datatype reply = Fault str | Content "str option"

datatype loads_result = Parsed json | JSONDecodeError | LoadsRaises str

record env =
  API_KEY :: "str option"
  OpenAI :: "str option \<Rightarrow> str option"
  chat_create :: "nat \<Rightarrow> str \<Rightarrow> reply"
  json_loads :: "str \<Rightarrow> loads_result"
  json_dump :: "json \<Rightarrow> str list \<times> exn option"
  py_repr :: "json \<Rightarrow> exn + str"
  strftime_now :: "nat \<Rightarrow> string"

text \<open>
  The state the program reads and changes: the text files by path (each holds the text
  that reading returns; the decoder of UTF-8 gives no lone surrogate, and the statements
  that depend on it say \<open>encodable\<close> of the text), the names in the directory
  \<^verbatim>\<open>sample_inputs\<close> in the order the file system lists them, what was printed, the
  paths opened for writing, and the number of interactions with the service and the
  clock so far.
\<close>

record world =
  files :: "str \<rightharpoonup> str"
  sample_inputs :: "str list"
  console :: "str list"
  written :: "str list"
  tick :: nat

definition py_print :: "str \<Rightarrow> world \<Rightarrow> world" where
  "py_print msg w = w\<lparr>console := console w @ [msg]\<rparr>"

text \<open>
  \<^verbatim>\<open>with open(path, "w", encoding="utf-8") as f: f.write(content)\<close>. Opening empties
  the file; \<^verbatim>\<open>f.write\<close> encodes the whole text before any of it reaches the file, so
  the file stays empty when the text has a lone surrogate.
\<close>

definition write_file :: "str \<Rightarrow> str \<Rightarrow> world \<Rightarrow> exn option \<times> world" where
  "write_file path content w =
     (case first_surrogate 0 content of
        None \<Rightarrow>
          (None, w\<lparr>files := (files w)(path \<mapsto> content), written := written w @ [path]\<rparr>)
      | Some (c, i) \<Rightarrow>
          (Some (UnicodeEncodeError c i),
           w\<lparr>files := (files w)(path \<mapsto> []), written := written w @ [path]\<rparr>))"

definition next_tick :: "world \<Rightarrow> world" where
  "next_tick w = w\<lparr>tick := Suc (tick w)\<rparr>"

text \<open>\<^verbatim>\<open>format(v, "")\<close>, what an f-string field prints for a value.\<close>

definition py_format :: "env \<Rightarrow> json \<Rightarrow> exn + str" where
  "py_format e v =
     (case v of
        JStr s \<Rightarrow> Inr s
      | JInt i \<Rightarrow> int_format i
      | JBool b \<Rightarrow> Inr (if b then asc ''True'' else asc ''False'')
      | JNull \<Rightarrow> Inr (asc ''None'')
      | JFloat x \<Rightarrow> Inr x
      | JArr xs \<Rightarrow> py_repr e v
      | JObj d \<Rightarrow> py_repr e v)"

text \<open>An exception ends the evaluation of what follows it.\<close>

definition py_then :: "exn + 'a \<Rightarrow> ('a \<Rightarrow> exn + 'b) \<Rightarrow> exn + 'b" where
  "py_then x f = (case x of Inl err \<Rightarrow> Inl err | Inr v \<Rightarrow> f v)"

section \<open>The helper functions\<close>

subsection \<open>nolasit_failu\<close>

definition nevar_atrast_msg :: "str \<Rightarrow> str" where
  "nevar_atrast_msg cels = [9888, 65039] @ asc '' Nevar atrast failu: '' @ cels"

text \<open>
  \<open>files w cels = None\<close> is the \<^verbatim>\<open>FileNotFoundError\<close> of \<^verbatim>\<open>open\<close>, the one exception
  the function catches.
\<close>

definition nolasit_failu :: "str \<Rightarrow> world \<Rightarrow> str \<times> world" where
  "nolasit_failu cels w =
     (case files w cels of
        Some saturs \<Rightarrow> (strip saturs, w)
      | None \<Rightarrow> ([], py_print (nevar_atrast_msg cels) w))"

subsection \<open>izveidot_promptu\<close>

definition prompt_head :: str where
  "prompt_head =
     [10] @ asc ''Tu esi HR speci'' @ [257] @ asc ''lists, kas v'' @ [275] @ asc ''rt'' @
     [275] @ asc '' kandid'' @ [257] @ asc ''tu CV atbilst'' @ [299] @
     asc ''bu darba aprakstam (JD).'' @ [10] @ asc ''Analiz'' @ [275] @
     asc '' abus tekstus un sniedz prec'' @ [299] @ asc ''zu JSON atbildi ar '' @
     [353, 257] @ asc ''du strukt'' @ [363] @ asc ''ru:'' @ [10, 123, 10] @
     asc ''  '' @ [34] @ asc ''match_score'' @ [34] @ asc '': 0-100,'' @ [10] @
     asc ''  '' @ [34] @ asc ''summary'' @ [34] @ asc '': '' @ [34, 298] @
     asc ''ss apraksts, cik labi CV atbilst JD.'' @ [34] @ asc '','' @ [10] @
     asc ''  '' @ [34] @ asc ''strengths'' @ [34] @ asc '': ['' @ [34] @
     asc ''Galven'' @ [257] @ asc ''s prasmes/pieredze no CV, kas atbilst JD'' @ [34] @
     asc ''],'' @ [10] @ asc ''  '' @ [34] @ asc ''missing_requirements'' @ [34] @
     asc '': ['' @ [34] @ asc ''Svar'' @ [299] @ asc ''gas JD pras'' @ [299] @
     asc ''bas, kas CV nav redzamas'' @ [34] @ asc ''],'' @ [10] @ asc ''  '' @ [34] @
     asc ''verdict'' @ [34] @ asc '': '' @ [34] @
     asc ''strong match | possible match | not a match'' @ [34, 10, 125, 10, 10] @
     asc ''=== DARBA APRAKSTS ==='' @ [10]"

definition prompt_mid :: str where
  "prompt_mid = [10, 10] @ asc ''=== KANDID'' @ [256] @ asc ''TA CV ==='' @ [10]"

text \<open>
  The function returns only after the write, so the exception of the write leaves it
  (\<open>Inl\<close>) and no prompt is returned.
\<close>

definition izveidot_promptu :: "str \<Rightarrow> str \<Rightarrow> world \<Rightarrow> (exn + str) \<times> world" where
  "izveidot_promptu jd_texts cv_texts w =
     (let prompt = prompt_head @ jd_texts @ prompt_mid @ cv_texts @ [10]
      in case write_file (asc ''prompt.md'') (strip prompt) w of
           (Some err, w1) \<Rightarrow> (Inl err, w1)
         | (None, w1) \<Rightarrow> (Inr (strip prompt), w1))"

subsection \<open>izsaukt_modeli\<close>

definition kluda_msg :: "str \<Rightarrow> str" where
  "kluda_msg e = [10060] @ asc '' K'' @ [316, 363] @ asc ''da, izsaucot modeli: '' @ e"

definition nederigs_json_msg :: str where
  "nederigs_json_msg =
     [9888, 65039] @ asc '' Br'' @ [299] @ asc ''din'' @ [257] @
     asc ''jums: Modelis neatgrieza der'' @ [299] @ asc ''gu JSON. Saglab'' @ [257] @
     asc ''ju k'' @ [257] @ asc '' neapstr'' @ [257] @ asc ''d'' @ [257] @
     asc ''tu tekstu.''"

text \<open>The message of the \<^verbatim>\<open>TypeError\<close> that \<^verbatim>\<open>json.loads(None)\<close> raises.\<close>

definition loads_none_msg :: str where
  "loads_none_msg = asc ''the JSON object must be str, bytes or bytearray, not NoneType''"

text \<open>
  The client is constructed before the \<^verbatim>\<open>try\<close>; the request, the read of the content
  and the parse are inside it. \<open>Inl\<close> is an exception that leaves the function. The
  inner handler catches \<^verbatim>\<open>JSONDecodeError\<close> only; what else \<^verbatim>\<open>json.loads\<close> raises goes
  to the outer handler, as the exceptions of the request do.
\<close>

definition izsaukt_modeli :: "env \<Rightarrow> str \<Rightarrow> world \<Rightarrow> (exn + json) \<times> world" where
  "izsaukt_modeli e prompt w =
     (case OpenAI e (API_KEY e) of
        Some m \<Rightarrow> (Inl (OpenAIError m), w)
      | None \<Rightarrow>
          (let w1 = next_tick w in
           case chat_create e (tick w) prompt of
             Fault m \<Rightarrow> (Inr (JObj [(asc ''error'', JStr m)]), py_print (kluda_msg m) w1)
           | Content None \<Rightarrow>
               (Inr (JObj [(asc ''error'', JStr loads_none_msg)]),
                py_print (kluda_msg loads_none_msg) w1)
           | Content (Some rezultata_teksts) \<Rightarrow>
               (case json_loads e rezultata_teksts of
                  Parsed v \<Rightarrow> (Inr v, w1)
                | JSONDecodeError \<Rightarrow>
                    (Inr (JObj [(asc ''error'', JStr (asc ''Invalid JSON'')),
                                (asc ''raw_response'', JStr rezultata_teksts)]),
                     py_print nederigs_json_msg w1)
                | LoadsRaises m \<Rightarrow>
                    (Inr (JObj [(asc ''error'', JStr m)]), py_print (kluda_msg m) w1))))"

subsection \<open>saglabat_json\<close>

text \<open>
  \<^verbatim>\<open>json.dump\<close> writes the chunks of the encoder one by one. \<open>write_chunks cs acc\<close> is
  the text that reaches the file, after \<open>acc\<close>, and the exception of the first chunk
  that cannot be encoded, at which the writing stops.
\<close>

fun write_chunks :: "str list \<Rightarrow> str \<Rightarrow> str \<times> exn option" where
  "write_chunks [] acc = (acc, None)"
| "write_chunks (c # cs) acc =
     (case first_surrogate 0 c of
        Some (s, i) \<Rightarrow> (acc, Some (UnicodeEncodeError s i))
      | None \<Rightarrow> write_chunks cs (acc @ c))"

text \<open>
  Opening empties the file. When all chunks are written the exception of the encoder,
  if there is one, leaves the function; the file keeps what was written before.
\<close>

definition saglabat_json :: "env \<Rightarrow> json \<Rightarrow> str \<Rightarrow> world \<Rightarrow> exn option \<times> world" where
  "saglabat_json e dati fails w =
     (let (chunks, encoder_error) = json_dump e dati;
          (content, write_error) = write_chunks chunks []
      in ((case write_error of Some err \<Rightarrow> Some err | None \<Rightarrow> encoder_error),
          w\<lparr>files := (files w)(fails \<mapsto> content), written := written w @ [fails]\<rparr>))"

subsection \<open>genereet_parskatu\<close>

text \<open>
  \<^verbatim>\<open>"".join(f"- {s}\n" for s in v) or "Nav noradits."\<close> (the placeholder has two
  Latvian letters in the source). The items are formatted in order, and the first
  exception ends the join.
\<close>

definition nav_noradits :: str where
  "nav_noradits = asc ''Nav nor'' @ [257] @ asc ''d'' @ [299] @ asc ''ts.''"

fun join_items :: "env \<Rightarrow> json list \<Rightarrow> exn + str" where
  "join_items e [] = Inr []"
| "join_items e (s # rest) =
     py_then (py_format e s) (\<lambda>t.
     py_then (join_items e rest) (\<lambda>u. Inr (asc ''- '' @ t @ [10] @ u)))"

definition saraksts :: "env \<Rightarrow> json \<Rightarrow> exn + str" where
  "saraksts e v =
     py_then (py_iter v) (\<lambda>items.
     py_then (join_items e items) (\<lambda>joined.
       Inr (if joined = [] then nav_noradits else joined)))"

text \<open>The template with its fields filled in, before the final \<^verbatim>\<open>strip\<close>.\<close>

definition parskats_veidne :: "str \<Rightarrow> str \<Rightarrow> str \<Rightarrow> str \<Rightarrow> str \<Rightarrow> str \<Rightarrow> str" where
  "parskats_veidne datums punkti kopsavilkums stipras trukstosas spriedums =
     asc ''# CV Atbilst'' @ [299] @ asc ''bas P'' @ [257] @ asc ''rskats'' @ [10, 10] @
     asc ''**Datums:** '' @ datums @
     [10] @ asc ''**Atbilst'' @ [299] @ asc ''bas punktu skaits:** '' @ punkti @
     [10, 10] @ asc ''---'' @ [10, 10] @ asc ''### '' @ [128221] @ asc '' Kopsavilkums'' @
     [10] @ kopsavilkums @
     [10, 10] @ asc ''---'' @ [10, 10] @ asc ''### '' @ [9989] @ asc '' Stipr'' @ [257] @
     asc ''s puses'' @ [10] @ stipras @
     [10, 10] @ asc ''---'' @ [10, 10] @ asc ''### '' @ [9888, 65039] @ asc '' Tr'' @
     [363] @ asc ''ksto'' @ [353, 257] @ asc ''s pras'' @ [299] @ asc ''bas'' @ [10] @
     trukstosas @
     [10, 10] @ asc ''---'' @ [10, 10] @ asc ''### '' @ [128161] @ asc '' Spriedums'' @
     [10] @ asc ''**'' @ spriedums @ asc ''**'' @ [10]"

definition no_get :: "string \<Rightarrow> exn" where
  "no_get ty = AttributeError ([39] @ asc ty @ [39] @ asc '' object has no attribute '' @
     [39] @ asc ''get'' @ [39])"

text \<open>
  The fields of the f-string are evaluated and formatted from left to right: the clock
  first, then each \<^verbatim>\<open>dati.get\<close>. A value that is no dict has no \<^verbatim>\<open>get\<close>. The file is
  opened only after the text is built, so nothing is written when a field raises.
\<close>

definition parskats :: "env \<Rightarrow> str \<Rightarrow> json \<Rightarrow> exn + str" where
  "parskats e datums dati =
     (case dati of
        JObj d \<Rightarrow>
          py_then (py_format e (dict_get d (asc ''match_score'') (JStr (asc ''N/A'')))) (\<lambda>punkti.
          py_then (py_format e (dict_get d (asc ''summary'') (JStr (asc ''Nav kopsavilkuma.''))))
            (\<lambda>kopsavilkums.
          py_then (saraksts e (dict_get d (asc ''strengths'') (JArr []))) (\<lambda>stipras.
          py_then (saraksts e (dict_get d (asc ''missing_requirements'') (JArr []))) (\<lambda>trukstosas.
          py_then (py_format e (dict_get d (asc ''verdict'') (JStr (asc ''Nav sprieduma.''))))
            (\<lambda>spriedums.
            Inr (parskats_veidne datums punkti kopsavilkums stipras trukstosas spriedums))))))
      | JNull \<Rightarrow> Inl (no_get ''NoneType'')
      | JBool b \<Rightarrow> Inl (no_get ''bool'')
      | JInt i \<Rightarrow> Inl (no_get ''int'')
      | JFloat x \<Rightarrow> Inl (no_get ''float'')
      | JStr s \<Rightarrow> Inl (no_get ''str'')
      | JArr xs \<Rightarrow> Inl (no_get ''list''))"

definition genereet_parskatu :: "env \<Rightarrow> json \<Rightarrow> str \<Rightarrow> world \<Rightarrow> exn option \<times> world" where
  "genereet_parskatu e dati fails w =
     (let w1 = next_tick w in
      case parskats e (asc (strftime_now e (tick w))) dati of
        Inl err \<Rightarrow> (Some err, w1)
      | Inr teksts \<Rightarrow> write_file fails (strip teksts) w1)"

section \<open>main\<close>

text \<open>\<^verbatim>\<open>Path("sample_inputs").glob("cv*.txt")\<close> keeps the names that match the pattern.\<close>

definition glob_cv :: "str \<Rightarrow> bool" where
  "glob_cv name \<longleftrightarrow> prefix (asc ''cv'') name \<and> suffix (asc ''.txt'') name"

definition izlaiz_msg :: "str \<Rightarrow> str" where
  "izlaiz_msg cv =
     [9888, 65039] @ asc '' Izlai'' @ [382] @ asc '' '' @ cv @ asc '' '' @ [8212] @
     asc '' nav datu.''"

definition verteju_msg :: "str \<Rightarrow> str" where
  "verteju_msg cv = [128269] @ asc '' V'' @ [275] @ asc ''rt'' @ [275] @ asc ''ju '' @ cv @ asc ''...''"

definition sagatavots_msg :: "str \<Rightarrow> str \<Rightarrow> str" where
  "sagatavots_msg json_fails md_fails =
     [9989] @ asc '' Sagatavots: '' @ json_fails @ asc '' un '' @ md_fails @ [10]"

definition json_cels :: "str \<Rightarrow> str" where
  "json_cels cv = asc ''outputs/'' @ split_dot_0 cv @ asc ''.json''"

definition md_cels :: "str \<Rightarrow> str" where
  "md_cels cv = asc ''outputs/'' @ split_dot_0 cv @ asc ''_report.md''"

text \<open>
  The body of the loop for one candidate file name. The result is \<open>Some\<close> exception when
  one leaves the body (nothing in \<open>main\<close> catches it), \<open>None\<close> when the body ends or
  reaches \<^verbatim>\<open>continue\<close>.
\<close>

definition main_body :: "env \<Rightarrow> str \<Rightarrow> str \<Rightarrow> world \<Rightarrow> exn option \<times> world" where
  "main_body e jd_texts cv w =
     (let (cv_texts, w1) = nolasit_failu (asc ''sample_inputs/'' @ cv) w in
      if cv_texts = [] then (None, py_print (izlaiz_msg cv) w1)
      else
        (let w2 = py_print (verteju_msg cv) w1
         in case izveidot_promptu jd_texts cv_texts w2 of
              (Inl err, w3) \<Rightarrow> (Some err, w3)
            | (Inr prompts, w3) \<Rightarrow>
                (case izsaukt_modeli e prompts w3 of
                   (Inl err, w4) \<Rightarrow> (Some err, w4)
                 | (Inr rezultats, w4) \<Rightarrow>
                     (case saglabat_json e rezultats (json_cels cv) w4 of
                        (Some err, w5) \<Rightarrow> (Some err, w5)
                      | (None, w5) \<Rightarrow>
                          (case genereet_parskatu e rezultats (md_cels cv) w5 of
                             (Some err, w6) \<Rightarrow> (Some err, w6)
                           | (None, w6) \<Rightarrow>
                               (None, py_print (sagatavots_msg (json_cels cv) (md_cels cv)) w6))))))"

fun main_loop :: "env \<Rightarrow> str \<Rightarrow> str list \<Rightarrow> world \<Rightarrow> exn option \<times> world" where
  "main_loop e jd_texts [] w = (None, w)"
| "main_loop e jd_texts (cv # rest) w =
     (case main_body e jd_texts cv w of
        (Some err, w') \<Rightarrow> (Some err, w')
      | (None, w') \<Rightarrow> main_loop e jd_texts rest w')"

definition palaists_msg :: str where
  "palaists_msg =
     [128640] @ asc '' AI darbin'' @ [257] @ asc ''ts CV v'' @ [275] @ asc ''rt'' @ [275] @
     asc ''t'' @ [257] @ asc ''js tiek palaists...'' @ [10]"

definition nav_jd_msg :: str where
  "nav_jd_msg = [10060] @ asc '' Nav atrasts darba apraksta fails (jd.txt).''"

definition visi_msg :: str where
  "visi_msg =
     [127919] @ asc '' Visi CV ir nov'' @ [275] @ asc ''rt'' @ [275] @
     asc ''ti un rezult'' @ [257] @ asc ''ti saglab'' @ [257] @ asc ''ti map'' @
     [275] @ asc '' '' @ [39] @ asc ''outputs'' @ [39] @ asc ''.''"

definition jd_cels :: str where
  "jd_cels = asc ''sample_inputs/jd.txt''"

definition main :: "env \<Rightarrow> world \<Rightarrow> exn option \<times> world" where
  "main e w =
     (let w0 = py_print palaists_msg w;
          (jd_texts, w1) = nolasit_failu jd_cels w0 in
      if jd_texts = [] then (None, py_print nav_jd_msg w1)
      else
        (let cv_fails = filter glob_cv (sample_inputs w1) in
         case main_loop e jd_texts cv_fails w1 of
           (Some err, w2) \<Rightarrow> (Some err, w2)
         | (None, w2) \<Rightarrow> (None, py_print visi_msg w2)))"

section \<open>Notions used in the statements\<close>


text \<open>The string \<open>izveidot_promptu\<close> builds, writes and returns.\<close>

definition prompt_of :: "str \<Rightarrow> str \<Rightarrow> str" where
  "prompt_of jd_texts cv_texts = strip (prompt_head @ jd_texts @ prompt_mid @ cv_texts @ [10])"

text \<open>
  What \<open>saglabat_json\<close> does with a value: the text that reaches the file, and the
  exception that leaves the function, if any (\<open>saglabat_json_eq\<close> below).
\<close>

definition dump_text :: "env \<Rightarrow> json \<Rightarrow> str" where
  "dump_text e r = fst (write_chunks (fst (json_dump e r)) [])"

definition dump_error :: "env \<Rightarrow> json \<Rightarrow> exn option" where
  "dump_error e r =
     (case snd (write_chunks (fst (json_dump e r)) []) of
        Some err \<Rightarrow> Some err
      | None \<Rightarrow> snd (json_dump e r))"




text \<open>
  The dict \<open>izsaukt_modeli\<close> builds for a reply that is no JSON, and the one it builds
  for an exception with text \<open>m\<close>.
\<close>

definition nederigs_ieraksts :: "str \<Rightarrow> json" where
  "nederigs_ieraksts teksts =
     JObj [(asc ''error'', JStr (asc ''Invalid JSON'')), (asc ''raw_response'', JStr teksts)]"

definition kludas_ieraksts :: "str \<Rightarrow> json" where
  "kludas_ieraksts m = JObj [(asc ''error'', JStr m)]"

text \<open>
  \<open>has_line l doc\<close>: the lines of \<open>l\<close> are consecutive lines of \<open>doc\<close>, in Python
  \<^verbatim>\<open>("\n" + l + "\n") in ("\n" + doc + "\n")\<close>.
\<close>

definition has_line :: "str \<Rightarrow> str \<Rightarrow> bool" where
  "has_line l doc = sublist ([10] @ l @ [10]) ([10] @ doc @ [10])"

text \<open>
  The parts of the template of \<open>genereet_parskatu\<close>: the title, the line of the date,
  the line of the score, the rule between two parts, and the four parts with a heading.
  \<open>parskats_kermenis\<close> is the report without the line end that closes the template;
  \<open>veidne_kermenis\<close> below shows that it is the same text.
\<close>

definition virsraksts :: str where
  "virsraksts = asc ''# CV Atbilst'' @ [299] @ asc ''bas P'' @ [257] @ asc ''rskats''"

definition datums_rinda :: "str \<Rightarrow> str" where
  "datums_rinda datums = asc ''**Datums:** '' @ datums"

definition punkti_rinda :: "str \<Rightarrow> str" where
  "punkti_rinda punkti = asc ''**Atbilst'' @ [299] @ asc ''bas punktu skaits:** '' @ punkti"

definition atdalitajs :: str where
  "atdalitajs = [10, 10] @ asc ''---'' @ [10, 10]"

definition kopsavilkums_dala :: "str \<Rightarrow> str" where
  "kopsavilkums_dala kopsavilkums =
     asc ''### '' @ [128221] @ asc '' Kopsavilkums'' @ [10] @ kopsavilkums"

definition stipras_dala :: "str \<Rightarrow> str" where
  "stipras_dala stipras =
     asc ''### '' @ [9989] @ asc '' Stipr'' @ [257] @ asc ''s puses'' @ [10] @ stipras"

definition trukstosas_dala :: "str \<Rightarrow> str" where
  "trukstosas_dala trukstosas =
     asc ''### '' @ [9888, 65039] @ asc '' Tr'' @ [363] @ asc ''ksto'' @ [353, 257] @
     asc ''s pras'' @ [299] @ asc ''bas'' @ [10] @ trukstosas"

definition spriedums_dala :: "str \<Rightarrow> str" where
  "spriedums_dala spriedums =
     asc ''### '' @ [128161] @ asc '' Spriedums'' @ [10] @ asc ''**'' @ spriedums @ asc ''**''"

definition parskats_kermenis :: "str \<Rightarrow> str \<Rightarrow> str \<Rightarrow> str \<Rightarrow> str \<Rightarrow> str \<Rightarrow> str" where
  "parskats_kermenis datums punkti kopsavilkums stipras trukstosas spriedums =
     virsraksts @ [10, 10] @ datums_rinda datums @ [10] @ punkti_rinda punkti @ atdalitajs @
     kopsavilkums_dala kopsavilkums @ atdalitajs @ stipras_dala stipras @ atdalitajs @
     trukstosas_dala trukstosas @ atdalitajs @ spriedums_dala spriedums"

text \<open>The report \<open>genereet_parskatu\<close> writes when every field is replaced by its placeholder.\<close>

definition vietturu_parskats :: "str \<Rightarrow> str" where
  "vietturu_parskats datums =
     parskats_kermenis datums (asc ''N/A'') (asc ''Nav kopsavilkuma.'')
       nav_noradits nav_noradits (asc ''Nav sprieduma.'')"

section \<open>Concrete runs\<close>

text \<open>
  The inputs of the examples: a world from its files and its directory listing, and an
  environment from the API key and the service. The constructor is the one of the
  \<^verbatim>\<open>openai\<close> package, which raises when it is given no key and the variable
  \<^verbatim>\<open>OPENAI_API_KEY\<close> is unset. \<open>demo_loads\<close> and \<open>demo_dump\<close> are \<^verbatim>\<open>json.loads\<close> and
  the encoder of \<^verbatim>\<open>json.dump\<close> on the texts and values of these runs; no list or dict
  is printed in them.
\<close>

definition world_of :: "(str \<times> str) list \<Rightarrow> str list \<Rightarrow> world" where
  "world_of fs names =
     \<lparr>files = map_of fs, sample_inputs = names, console = [], written = [], tick = 0\<rparr>"

definition missing_key_msg :: str where
  "missing_key_msg =
     asc ''The api_key client option must be set either by passing api_'' @
     asc ''key to the client or by setting the OPENAI_API_KEY environme'' @
     asc ''nt variable''"

definition openai_ctor :: "str option \<Rightarrow> str option" where
  "openai_ctor k = (case k of None \<Rightarrow> Some missing_key_msg | Some key \<Rightarrow> None)"

text \<open>The reply of the scenario, the value it parses to and the chunks of its dump.\<close>

definition alice_kopsavilkums :: str where
  "alice_kopsavilkums = asc ''Solid backend experience, junior on leadership scope''"

definition alice_rezultats :: "str \<Rightarrow> json" where
  "alice_rezultats kopsavilkums =
     JObj [(asc ''match_score'', JInt 72),
           (asc ''summary'', JStr kopsavilkums),
           (asc ''strengths'', JArr [JStr (asc ''Go expertise'')]),
           (asc ''missing_requirements'', JArr [JStr (asc ''5 years seniority'')]),
           (asc ''verdict'', JStr (asc ''possible match''))]"

definition alice_teksts :: str where
  "alice_teksts =
     [123, 34] @ asc ''match_score'' @ [34] @ asc '': 72, '' @ [34] @
     asc ''summary'' @ [34] @ asc '': '' @ [34] @
     asc ''Solid backend experience, junior on leadership scope'' @ [34] @
     asc '', '' @ [34] @ asc ''strengths'' @ [34] @ asc '': ['' @ [34] @
     asc ''Go expertise'' @ [34] @ asc ''], '' @ [34] @
     asc ''missing_requirements'' @ [34] @ asc '': ['' @ [34] @
     asc ''5 years seniority'' @ [34] @ asc ''], '' @ [34] @ asc ''verdict'' @ [34] @
     asc '': '' @ [34] @ asc ''possible match'' @ [34, 125]"

definition alice_chunks :: "str list" where
  "alice_chunks =
     [asc ''{'',
      [10] @ asc ''  '',
      [34] @ asc ''match_score'' @ [34],
      asc '': '',
      asc ''72'',
      asc '','' @ [10] @ asc ''  '',
      [34] @ asc ''summary'' @ [34],
      asc '': '',
      [34] @ asc ''Solid backend experience, junior on leadership scope'' @
        [34],
      asc '','' @ [10] @ asc ''  '',
      [34] @ asc ''strengths'' @ [34],
      asc '': '',
      asc ''['' @ [10] @ asc ''    '' @ [34] @ asc ''Go expertise'' @ [34],
      [10] @ asc ''  '',
      asc '']'',
      asc '','' @ [10] @ asc ''  '',
      [34] @ asc ''missing_requirements'' @ [34],
      asc '': '',
      asc ''['' @ [10] @ asc ''    '' @ [34] @ asc ''5 years seniority'' @
        [34],
      [10] @ asc ''  '',
      asc '']'',
      asc '','' @ [10] @ asc ''  '',
      [34] @ asc ''verdict'' @ [34],
      asc '': '',
      [34] @ asc ''possible match'' @ [34],
      [10],
      [125]]"

definition alice_json :: str where
  "alice_json =
     [123, 10] @ asc ''  '' @ [34] @ asc ''match_score'' @ [34] @ asc '': 72,'' @
     [10] @ asc ''  '' @ [34] @ asc ''summary'' @ [34] @ asc '': '' @ [34] @
     asc ''Solid backend experience, junior on leadership scope'' @ [34] @
     asc '','' @ [10] @ asc ''  '' @ [34] @ asc ''strengths'' @ [34] @ asc '': ['' @
     [10] @ asc ''    '' @ [34] @ asc ''Go expertise'' @ [34, 10] @ asc ''  ],'' @
     [10] @ asc ''  '' @ [34] @ asc ''missing_requirements'' @ [34] @ asc '': ['' @
     [10] @ asc ''    '' @ [34] @ asc ''5 years seniority'' @ [34, 10] @
     asc ''  ],'' @ [10] @ asc ''  '' @ [34] @ asc ''verdict'' @ [34] @ asc '': '' @
     [34] @ asc ''possible match'' @ [34, 10, 125]"

text \<open>A reply that is a JSON object with \<^verbatim>\<open>null\<close> for the list of missing requirements.\<close>

definition null_rezultats :: json where
  "null_rezultats =
     JObj [(asc ''match_score'', JInt 95),
           (asc ''summary'', JStr (asc ''Meets every requirement'')),
           (asc ''strengths'', JArr [JStr (asc ''Go expertise'')]),
           (asc ''missing_requirements'', JNull),
           (asc ''verdict'', JStr (asc ''strong match''))]"

definition null_teksts :: str where
  "null_teksts =
     [123, 34] @ asc ''match_score'' @ [34] @ asc '': 95, '' @ [34] @
     asc ''summary'' @ [34] @ asc '': '' @ [34] @ asc ''Meets every requirement'' @
     [34] @ asc '', '' @ [34] @ asc ''strengths'' @ [34] @ asc '': ['' @ [34] @
     asc ''Go expertise'' @ [34] @ asc ''], '' @ [34] @
     asc ''missing_requirements'' @ [34] @ asc '': null, '' @ [34] @
     asc ''verdict'' @ [34] @ asc '': '' @ [34] @ asc ''strong match'' @ [34, 125]"

definition null_chunks :: "str list" where
  "null_chunks =
     [asc ''{'',
      [10] @ asc ''  '',
      [34] @ asc ''match_score'' @ [34],
      asc '': '',
      asc ''95'',
      asc '','' @ [10] @ asc ''  '',
      [34] @ asc ''summary'' @ [34],
      asc '': '',
      [34] @ asc ''Meets every requirement'' @ [34],
      asc '','' @ [10] @ asc ''  '',
      [34] @ asc ''strengths'' @ [34],
      asc '': '',
      asc ''['' @ [10] @ asc ''    '' @ [34] @ asc ''Go expertise'' @ [34],
      [10] @ asc ''  '',
      asc '']'',
      asc '','' @ [10] @ asc ''  '',
      [34] @ asc ''missing_requirements'' @ [34],
      asc '': '',
      asc ''null'',
      asc '','' @ [10] @ asc ''  '',
      [34] @ asc ''verdict'' @ [34],
      asc '': '',
      [34] @ asc ''strong match'' @ [34],
      [10],
      [125]]"

text \<open>
  A reply that is a JSON object whose summary is the escape of a lone surrogate: the
  text has only ASCII characters, the value it parses to holds the surrogate.
\<close>

definition surogats_rezultats :: json where
  "surogats_rezultats = JObj [(asc ''summary'', JStr [55357])]"

definition surogats_teksts :: str where
  "surogats_teksts =
     [123, 34] @ asc ''summary'' @ [34] @ asc '': '' @ [34, 92] @ asc ''ud83d'' @
     [34, 125]"

definition surogats_chunks :: "str list" where
  "surogats_chunks =
     [asc ''{'',
      [10] @ asc ''  '',
      [34] @ asc ''summary'' @ [34],
      asc '': '',
      [34, 55357, 34],
      [10],
      [125]]"

text \<open>A reply that is no JSON, and the error record for it.\<close>

definition nederigs_teksts :: str where
  "nederigs_teksts = asc ''Sorry, I cannot help.''"

definition nederigs_rezultats :: json where
  "nederigs_rezultats = nederigs_ieraksts nederigs_teksts"

definition nederigs_chunks :: "str list" where
  "nederigs_chunks =
     [asc ''{'',
      [10] @ asc ''  '',
      [34] @ asc ''error'' @ [34],
      asc '': '',
      [34] @ asc ''Invalid JSON'' @ [34],
      asc '','' @ [10] @ asc ''  '',
      [34] @ asc ''raw_response'' @ [34],
      asc '': '',
      [34] @ asc ''Sorry, I cannot help.'' @ [34],
      [10],
      [125]]"

definition nederigs_json :: str where
  "nederigs_json =
     [123, 10] @ asc ''  '' @ [34] @ asc ''error'' @ [34] @ asc '': '' @ [34] @
     asc ''Invalid JSON'' @ [34] @ asc '','' @ [10] @ asc ''  '' @ [34] @
     asc ''raw_response'' @ [34] @ asc '': '' @ [34] @
     asc ''Sorry, I cannot help.'' @ [34, 10, 125]"

text \<open>
  A reply that is one lone surrogate, which is no JSON, and the chunks of the dump of
  its error record.
\<close>

definition viens_surogats_chunks :: "str list" where
  "viens_surogats_chunks =
     [asc ''{'', [10] @ asc ''  '', [34] @ asc ''error'' @ [34], asc '': '',
      [34] @ asc ''Invalid JSON'' @ [34], asc '','' @ [10] @ asc ''  '',
      [34] @ asc ''raw_response'' @ [34], asc '': '', [34, 55357, 34], [10], [125]]"

text \<open>
  A reply of a hundred thousand opening brackets, on which \<^verbatim>\<open>json.loads\<close> raises
  \<^verbatim>\<open>RecursionError\<close>.
\<close>

definition dzils_teksts :: str where
  "dzils_teksts = replicate 100000 91"

definition dzils_msg :: str where
  "dzils_msg =
     asc ''maximum recursion depth exceeded while decoding a JSON array'' @
     asc '' from a unicode string''"

text \<open>The error record of a request that raised.\<close>

definition kluda_rezultats :: json where
  "kluda_rezultats = kludas_ieraksts (asc ''Connection error.'')"

definition kluda_chunks :: "str list" where
  "kluda_chunks =
     [asc ''{'',
      [10] @ asc ''  '',
      [34] @ asc ''error'' @ [34],
      asc '': '',
      [34] @ asc ''Connection error.'' @ [34],
      [10],
      [125]]"

definition kluda_json :: str where
  "kluda_json =
     [123, 10] @ asc ''  '' @ [34] @ asc ''error'' @ [34] @ asc '': '' @ [34] @
     asc ''Connection error.'' @ [34, 10, 125]"

definition demo_loads :: "str \<Rightarrow> loads_result" where
  "demo_loads t =
     (if t = alice_teksts then Parsed (alice_rezultats alice_kopsavilkums)
      else if t = null_teksts then Parsed null_rezultats
      else if t = surogats_teksts then Parsed surogats_rezultats
      else if t = dzils_teksts then LoadsRaises dzils_msg
      else JSONDecodeError)"

definition demo_dump :: "json \<Rightarrow> str list \<times> exn option" where
  "demo_dump v =
     (if v = alice_rezultats alice_kopsavilkums then (alice_chunks, None)
      else if v = null_rezultats then (null_chunks, None)
      else if v = surogats_rezultats then (surogats_chunks, None)
      else if v = nederigs_rezultats then (nederigs_chunks, None)
      else if v = nederigs_ieraksts [55357] then (viens_surogats_chunks, None)
      else if v = kluda_rezultats then (kluda_chunks, None)
      else ([], None))"

definition demo_env :: "str option \<Rightarrow> (nat \<Rightarrow> str \<Rightarrow> reply) \<Rightarrow> env" where
  "demo_env key svc =
     \<lparr>API_KEY = key, OpenAI = openai_ctor, chat_create = svc, json_loads = demo_loads,
      json_dump = demo_dump, py_repr = (\<lambda>v. Inr []), strftime_now = (\<lambda>n. ''2025-11-03 09:15'')\<rparr>"

definition atslega :: "str option" where
  "atslega = Some (asc ''sk-demo'')"

definition jd_alice :: str where
  "jd_alice = asc ''Senior backend engineer, 5 years Go''"

definition cv_alice :: str where
  "cv_alice = asc ''3 years Go, led a team''"

definition alice_world :: world where
  "alice_world =
     world_of [(jd_cels, jd_alice), (asc ''sample_inputs/cv_alice.txt'', cv_alice)]
              [asc ''jd.txt'', asc ''cv_alice.txt'']"

text \<open>The same directory without the job description.\<close>

definition no_jd_world :: world where
  "no_jd_world =
     world_of [(asc ''sample_inputs/cv_alice.txt'', cv_alice)] [asc ''cv_alice.txt'']"

text \<open>
  A job description of blanks and a line end, a zero-length candidate, a candidate of a
  tab and a line end, and a candidate with text.
\<close>

definition blank_world :: world where
  "blank_world =
     world_of [(jd_cels, [32, 32, 10]),
               (asc ''sample_inputs/cv_empty.txt'', []),
               (asc ''sample_inputs/cv_blank.txt'', [9, 10]),
               (asc ''sample_inputs/cv_alice.txt'', cv_alice)]
              [asc ''cv_empty.txt'', asc ''cv_blank.txt'', asc ''cv_alice.txt'', asc ''jd.txt'']"

text \<open>The report of the run in which the service replies with \<open>alice_teksts\<close>.\<close>

definition alice_parskats :: str where
  "alice_parskats =
     parskats_kermenis (asc ''2025-11-03 09:15'') (asc ''72'') alice_kopsavilkums
       (asc ''- Go expertise'' @ [10]) (asc ''- 5 years seniority'' @ [10]) (asc ''possible match'')"


text \<open>
  Two candidates whose names agree up to their first dot, and a service that answers the
  first request with the reply of the scenario and fails on every later one.
\<close>

definition cv_otrs :: str where
  "cv_otrs = asc ''1 year Go''"



section \<open>Basic facts\<close>

subsection \<open>Stripping\<close>

lemma dropWhile_all: "(\<forall>x\<in>set (dropWhile P xs). P x) \<longleftrightarrow> (\<forall>x\<in>set xs. P x)"
proof
  assume a: "\<forall>x\<in>set (dropWhile P xs). P x"
  have "dropWhile P xs = []"
  proof (rule ccontr)
    assume n: "dropWhile P xs \<noteq> []"
    then have "\<not> P (hd (dropWhile P xs))" by (rule hd_dropWhile)
    moreover have "hd (dropWhile P xs) \<in> set (dropWhile P xs)" using n by simp
    ultimately show False using a by blast
  qed
  then show "\<forall>x\<in>set xs. P x" by (simp add: dropWhile_eq_Nil_conv)
next
  assume "\<forall>x\<in>set xs. P x"
  then show "\<forall>x\<in>set (dropWhile P xs). P x" by (auto dest: set_dropWhileD)
qed

lemma strip_Nil_iff: "strip t = [] \<longleftrightarrow> (\<forall>c\<in>set t. isspace c)"
  by (simp add: strip_def dropWhile_eq_Nil_conv dropWhile_all)








lemma dropWhile_rev_keep: "xs \<noteq> [] \<Longrightarrow> \<not> P (last xs) \<Longrightarrow> dropWhile P (rev xs) = rev xs"
  by (cases xs rule: rev_cases) simp_all

lemma strip_snoc_nl:
  assumes "b \<noteq> []" "\<not> isspace (hd b)" "\<not> isspace (last b)"
  shows "strip (b @ [10]) = b"
proof -
  have s: "isspace 10" by (simp add: isspace_def)
  obtain a u where b: "b = a # u" using assms(1) by (cases b) auto
  have l: "dropWhile isspace (b @ [10]) = b @ [10]" using assms(2) b by simp
  have "dropWhile isspace (rev (b @ [10])) = dropWhile isspace (rev b)" using s by simp
  also have "\<dots> = rev b" using assms(1,3) by (rule dropWhile_rev_keep)
  finally show ?thesis by (simp add: strip_def l)
qed

lemma strip_butlast:
  assumes "t \<noteq> []" "\<not> isspace (hd t)" "last t = 10" "butlast t \<noteq> []" "\<not> isspace (last (butlast t))"
  shows "strip t = butlast t"
proof -
  have t: "t = butlast t @ [10]" using assms(1,3) by (metis append_butlast_last_id)
  have "hd (butlast t) = hd t" using assms(4) t by (metis hd_append2)
  then have "strip (butlast t @ [10]) = butlast t"
    using assms by (intro strip_snoc_nl) simp_all
  then show ?thesis using t by simp
qed

subsection \<open>Texts a file accepts\<close>

lemma first_surrogate_None: "first_surrogate i t = None \<longleftrightarrow> (\<forall>c\<in>set t. \<not> surrogate c)"
  by (induction t arbitrary: i) auto

lemma encodable_iff: "encodable t \<longleftrightarrow> (\<forall>c\<in>set t. \<not> surrogate c)"
  by (simp add: encodable_def first_surrogate_None)

lemma encodable_simps [simp]:
  "encodable []"
  "encodable (c # t) \<longleftrightarrow> \<not> surrogate c \<and> encodable t"
  "encodable (t @ u) \<longleftrightarrow> encodable t \<and> encodable u"
  by (auto simp: encodable_iff)

lemma of_char_lt: "(of_char c :: nat) < 256"
proof -
  have "(of_char c :: nat) mod 256 < 256" by simp
  then show ?thesis by (simp only: of_char_mod_256)
qed

lemma encodable_asc [simp]: "encodable (asc s)"
proof -
  have "\<not> surrogate (of_char c)" for c :: char
    using of_char_lt [of c] unfolding surrogate_def by linarith
  then show ?thesis by (auto simp: encodable_iff asc_def)
qed

lemma encodable_subset: "set u \<subseteq> set t \<Longrightarrow> encodable t \<Longrightarrow> encodable u"
  by (auto simp: encodable_iff)

lemma encodable_strip: "encodable t \<Longrightarrow> encodable (strip t)"
proof (rule encodable_subset)
  show "set (strip t) \<subseteq> set t"
    by (auto simp: strip_def dest!: set_dropWhileD)
qed

lemma not_surrogate [simp]:
  "\<not> surrogate 10" "\<not> surrogate 34" "\<not> surrogate 39" "\<not> surrogate 123" "\<not> surrogate 125"
  "\<not> surrogate 256" "\<not> surrogate 257" "\<not> surrogate 275" "\<not> surrogate 298" "\<not> surrogate 299"
  "\<not> surrogate 353" "\<not> surrogate 363" "\<not> surrogate 9888" "\<not> surrogate 9989"
  "\<not> surrogate 65039" "\<not> surrogate 128161" "\<not> surrogate 128221" "surrogate 55357"
  by (simp_all add: surrogate_def)


subsection \<open>The digits of an integer\<close>




subsection \<open>The state and the paths\<close>

lemma world_simps [simp]:
  "files (py_print m w) = files w"
  "written (py_print m w) = written w"
  "tick (py_print m w) = tick w"
  "sample_inputs (py_print m w) = sample_inputs w"
  "console (py_print m w) = console w @ [m]"
  "files (next_tick w) = files w"
  "written (next_tick w) = written w"
  "tick (next_tick w) = Suc (tick w)"
  "sample_inputs (next_tick w) = sample_inputs w"
  "console (next_tick w) = console w"
  by (simp_all add: py_print_def next_tick_def)

lemma write_file_ok:
  "encodable c \<Longrightarrow>
     write_file p c w = (None, w\<lparr>files := (files w)(p \<mapsto> c), written := written w @ [p]\<rparr>)"
  by (simp add: write_file_def encodable_def)


lemma write_file_world [simp]:
  "files (snd (write_file p c w)) = (files w)(p \<mapsto> (if encodable c then c else []))"
  "written (snd (write_file p c w)) = written w @ [p]"
  "tick (snd (write_file p c w)) = tick w"
  "sample_inputs (snd (write_file p c w)) = sample_inputs w"
  "console (snd (write_file p c w)) = console w"
  by (simp_all add: write_file_def encodable_def split: option.split)

lemma write_chunks_all:
  "list_all encodable cs \<Longrightarrow> write_chunks cs acc = (acc @ concat cs, None)"
  by (induction cs arbitrary: acc) (simp_all add: encodable_def)

lemma nolasit_failu_simps:
  "files (snd (nolasit_failu p w)) = files w"
  "written (snd (nolasit_failu p w)) = written w"
  "tick (snd (nolasit_failu p w)) = tick w"
  "sample_inputs (snd (nolasit_failu p w)) = sample_inputs w"
  by (simp_all add: nolasit_failu_def split: option.split)


lemma key_neq [simp]:
  "asc ''error'' \<noteq> asc ''strengths''"
  "asc ''error'' \<noteq> asc ''missing_requirements''"
  "asc ''raw_response'' \<noteq> asc ''strengths''"
  "asc ''raw_response'' \<noteq> asc ''missing_requirements''"
  "asc ''error'' \<noteq> asc ''match_score''"
  "asc ''error'' \<noteq> asc ''summary''"
  "asc ''error'' \<noteq> asc ''verdict''"
  "asc ''raw_response'' \<noteq> asc ''match_score''"
  "asc ''raw_response'' \<noteq> asc ''summary''"
  "asc ''raw_response'' \<noteq> asc ''verdict''"
  by (simp_all add: asc_def)



subsection \<open>The prompt\<close>

lemma encodable_prompt:
  assumes "encodable jd" "encodable cv"
  shows "encodable (prompt_of jd cv)"
proof -
  have "encodable prompt_head" by (simp add: prompt_head_def)
  moreover have "encodable prompt_mid" by (simp add: prompt_mid_def)
  ultimately show ?thesis using assms by (simp add: prompt_of_def encodable_strip)
qed

lemma izveidot_promptu_ok:
  assumes "encodable (prompt_of jd cv)"
  shows "izveidot_promptu jd cv w =
           (Inr (prompt_of jd cv),
            w\<lparr>files := (files w)(asc ''prompt.md'' \<mapsto> prompt_of jd cv),
              written := written w @ [asc ''prompt.md'']\<rparr>)"
  using assms by (simp add: izveidot_promptu_def Let_def prompt_of_def [symmetric] write_file_ok)

lemma izveidot_promptu_fst:
  "fst (izveidot_promptu jd cv w) =
     (if encodable (prompt_of jd cv) then Inr (prompt_of jd cv)
      else Inl (case first_surrogate 0 (prompt_of jd cv) of Some (c, i) \<Rightarrow> UnicodeEncodeError c i))"
  by (auto simp: izveidot_promptu_def Let_def prompt_of_def [symmetric] write_file_def encodable_def
      split: option.split)

lemma izveidot_promptu_world [simp]:
  "files (snd (izveidot_promptu jd cv w)) =
     (files w)(asc ''prompt.md'' \<mapsto> (if encodable (prompt_of jd cv) then prompt_of jd cv else []))"
  "written (snd (izveidot_promptu jd cv w)) = written w @ [asc ''prompt.md'']"
  "tick (snd (izveidot_promptu jd cv w)) = tick w"
  "sample_inputs (snd (izveidot_promptu jd cv w)) = sample_inputs w"
  "console (snd (izveidot_promptu jd cv w)) = console w"
  by (auto simp: izveidot_promptu_def Let_def prompt_of_def [symmetric] write_file_def encodable_def
      split: option.split)







subsection \<open>The model call\<close>

lemma izsaukt_modeli_raises:
  "OpenAI e (API_KEY e) = Some m \<Longrightarrow> izsaukt_modeli e p w = (Inl (OpenAIError m), w)"
  by (simp add: izsaukt_modeli_def)


lemma izsaukt_modeli_world [simp]:
  "files (snd (izsaukt_modeli e p w)) = files w"
  "written (snd (izsaukt_modeli e p w)) = written w"
  "sample_inputs (snd (izsaukt_modeli e p w)) = sample_inputs w"
  "tick (snd (izsaukt_modeli e p w)) = (if OpenAI e (API_KEY e) = None then Suc (tick w) else tick w)"
  by (simp_all add: izsaukt_modeli_def Let_def split: reply.split option.split loads_result.split)

lemma izsaukt_modeli_fst:
  "tick w = tick w' \<Longrightarrow> fst (izsaukt_modeli e p w) = fst (izsaukt_modeli e p w')"
  by (simp add: izsaukt_modeli_def Let_def split: reply.split option.split loads_result.split)


lemma izsaukt_modeli_parsed:
  assumes "OpenAI e (API_KEY e) = None" "chat_create e (tick w) p = Content (Some t)"
    "json_loads e t = Parsed v"
  shows "fst (izsaukt_modeli e p w) = Inr v"
  using assms by (simp add: izsaukt_modeli_def Let_def)



subsection \<open>The saved result\<close>

lemma saglabat_json_eq:
  "saglabat_json e r p w =
     (dump_error e r,
      w\<lparr>files := (files w)(p \<mapsto> dump_text e r), written := written w @ [p]\<rparr>)"
  by (cases "json_dump e r"; cases "write_chunks (fst (json_dump e r)) []")
    (simp add: saglabat_json_def dump_error_def dump_text_def Let_def split: option.split)

lemma dump_all:
  assumes "json_dump e r = (chunks, None)" "list_all encodable chunks"
  shows "dump_error e r = None" "dump_text e r = concat chunks"
  using assms write_chunks_all [of chunks "[]"]
  by (simp_all add: dump_error_def dump_text_def)

subsection \<open>The report\<close>


lemma py_then_simps [simp]: "py_then (Inr v) f = f v" "py_then (Inl err) f = Inl err"
  by (simp_all add: py_then_def)



lemma encodable_nav_noradits [simp]: "encodable nav_noradits"
  by (simp add: nav_noradits_def)



lemma strip_veidne: "strip (parskats_veidne a b c d f g) = butlast (parskats_veidne a b c d f g)"
proof (rule strip_butlast)
  show "parskats_veidne a b c d f g \<noteq> []" by (simp add: parskats_veidne_def asc_def)
  show "\<not> isspace (hd (parskats_veidne a b c d f g))" by (simp add: parskats_veidne_def asc_def isspace_def)
  show "last (parskats_veidne a b c d f g) = 10" by (simp add: parskats_veidne_def)
  show "butlast (parskats_veidne a b c d f g) \<noteq> []" by (simp add: parskats_veidne_def asc_def)
  show "\<not> isspace (last (butlast (parskats_veidne a b c d f g)))"
    by (simp add: parskats_veidne_def butlast_append asc_def isspace_def)
qed

lemma veidne_kermenis:
  "parskats_veidne a b c d f g = parskats_kermenis a b c d f g @ [10]"
  by (simp add: parskats_veidne_def parskats_kermenis_def virsraksts_def datums_rinda_def
        punkti_rinda_def atdalitajs_def kopsavilkums_dala_def stipras_dala_def trukstosas_dala_def
        spriedums_dala_def)

lemma strip_veidne_kermenis: "strip (parskats_veidne a b c d f g) = parskats_kermenis a b c d f g"
  by (simp add: strip_veidne) (simp add: veidne_kermenis)


lemma has_line_between: "has_line l (p @ [10] @ l @ [10] @ s)"
proof -
  have "[10] @ (p @ [10] @ l @ [10] @ s) @ [10] = ([10] @ p) @ ([10] @ l @ [10]) @ (s @ [10])"
    by simp
  then show ?thesis unfolding has_line_def by (metis sublist_appendI)
qed

lemma has_line_last: "has_line l (p @ [10] @ l)"
proof -
  have "[10] @ (p @ [10] @ l) @ [10] = ([10] @ p) @ ([10] @ l @ [10]) @ []"
    by simp
  then show ?thesis unfolding has_line_def by (metis sublist_appendI)
qed

lemma kermenis_lines:
  "has_line (punkti_rinda b) (parskats_kermenis a b c d f g)"
  "has_line (kopsavilkums_dala c) (parskats_kermenis a b c d f g)"
  "has_line (spriedums_dala g) (parskats_kermenis a b c d f g)"
proof -
  have "parskats_kermenis a b c d f g =
          (virsraksts @ [10, 10] @ datums_rinda a) @ [10] @ punkti_rinda b @ [10] @
          ([10] @ asc ''---'' @ [10, 10] @
           kopsavilkums_dala c @ atdalitajs @ stipras_dala d @ atdalitajs @
           trukstosas_dala f @ atdalitajs @ spriedums_dala g)"
    by (simp add: parskats_kermenis_def atdalitajs_def)
  then show "has_line (punkti_rinda b) (parskats_kermenis a b c d f g)"
    by (metis has_line_between)
  have "parskats_kermenis a b c d f g =
          (virsraksts @ [10, 10] @ datums_rinda a @ [10] @ punkti_rinda b @ [10, 10] @ asc ''---'' @ [10])
          @ [10] @ kopsavilkums_dala c @ [10] @
          ([10] @ asc ''---'' @ [10, 10] @ stipras_dala d @ atdalitajs @
           trukstosas_dala f @ atdalitajs @ spriedums_dala g)"
    by (simp add: parskats_kermenis_def atdalitajs_def)
  then show "has_line (kopsavilkums_dala c) (parskats_kermenis a b c d f g)"
    by (metis has_line_between)
  have "parskats_kermenis a b c d f g =
          (virsraksts @ [10, 10] @ datums_rinda a @ [10] @ punkti_rinda b @ atdalitajs @
           kopsavilkums_dala c @ atdalitajs @ stipras_dala d @ atdalitajs @
           trukstosas_dala f @ [10, 10] @ asc ''---'' @ [10])
          @ [10] @ spriedums_dala g"
    by (simp add: parskats_kermenis_def atdalitajs_def)
  then show "has_line (spriedums_dala g) (parskats_kermenis a b c d f g)"
    by (metis has_line_last)
qed


lemma kermenis_verdict_line: "has_line (asc ''**'' @ g @ asc ''**'') (parskats_kermenis a b c d f g)"
proof -
  have "parskats_kermenis a b c d f g =
          (virsraksts @ [10, 10] @ datums_rinda a @ [10] @ punkti_rinda b @ atdalitajs @
           kopsavilkums_dala c @ atdalitajs @ stipras_dala d @ atdalitajs @
           trukstosas_dala f @ atdalitajs @ asc ''### '' @ [128161] @ asc '' Spriedums'')
          @ [10] @ (asc ''**'' @ g @ asc ''**'')"
    by (simp add: parskats_kermenis_def spriedums_dala_def)
  then show ?thesis by (metis has_line_last)
qed

lemma encodable_kermenis:
  "encodable (parskats_kermenis a b c d f g) \<longleftrightarrow>
     encodable a \<and> encodable b \<and> encodable c \<and> encodable d \<and> encodable f \<and> encodable g"
  by (auto simp: parskats_kermenis_def virsraksts_def datums_rinda_def punkti_rinda_def
        atdalitajs_def kopsavilkums_dala_def stipras_dala_def trukstosas_dala_def spriedums_dala_def)

lemma genereet_parskatu_ok:
  assumes "parskats e (asc (strftime_now e (tick w))) r = Inr doc" "encodable (strip doc)"
  shows "genereet_parskatu e r fails w =
           (None, (next_tick w)\<lparr>files := (files w)(fails \<mapsto> strip doc),
                                 written := written w @ [fails]\<rparr>)"
  using assms by (simp add: genereet_parskatu_def Let_def write_file_ok next_tick_def)


lemma genereet_parskatu_tick [simp]:
  "tick (snd (genereet_parskatu e r fails w)) = Suc (tick w)"
  "sample_inputs (snd (genereet_parskatu e r fails w)) = sample_inputs w"
  by (simp_all add: genereet_parskatu_def Let_def next_tick_def split: sum.split)







lemma encodable_vietturu [simp]: "encodable (vietturu_parskats (asc d))"
  by (simp add: vietturu_parskats_def encodable_kermenis)




subsection \<open>One iteration of the loop\<close>

lemma saglabat_json_world [simp]:
  "fst (saglabat_json e r p w) = dump_error e r"
  "files (snd (saglabat_json e r p w)) = (files w)(p \<mapsto> dump_text e r)"
  "written (snd (saglabat_json e r p w)) = written w @ [p]"
  "tick (snd (saglabat_json e r p w)) = tick w"
  "sample_inputs (snd (saglabat_json e r p w)) = sample_inputs w"
  by (simp_all add: saglabat_json_eq)


lemma main_body_skip:
  assumes "fst (nolasit_failu (asc ''sample_inputs/'' @ cv) w) = []"
  shows "main_body e jd cv w =
           (None, py_print (izlaiz_msg cv) (snd (nolasit_failu (asc ''sample_inputs/'' @ cv) w)))"
  using assms by (simp add: main_body_def split_beta)

text \<open>
  The body for a candidate with a text, after the prompt is written: what is left is the
  call of the model, the dump and the report, from a world \<open>w4\<close> in which the prompt
  is written and the clock has moved by one.
\<close>

lemma main_body_nonempty:
  assumes c: "files w (asc ''sample_inputs/'' @ cv) = Some c" "strip c \<noteq> []"
    and p: "encodable (prompt_of jd (strip c))"
    and r: "fst (izsaukt_modeli e (prompt_of jd (strip c)) w) = Inr r"
  shows "\<exists>w4. files w4 = (files w)(asc ''prompt.md'' \<mapsto> prompt_of jd (strip c)) \<and>
           written w4 = written w @ [asc ''prompt.md''] \<and>
           tick w4 = Suc (tick w) \<and>
           sample_inputs w4 = sample_inputs w \<and>
           main_body e jd cv w =
             (case saglabat_json e r (json_cels cv) w4 of
                (Some err, w5) \<Rightarrow> (Some err, w5)
              | (None, w5) \<Rightarrow>
                  (case genereet_parskatu e r (md_cels cv) w5 of
                     (Some err, w6) \<Rightarrow> (Some err, w6)
                   | (None, w6) \<Rightarrow>
                       (None, py_print (sagatavots_msg (json_cels cv) (md_cels cv)) w6)))"
proof -
  define q where "q = prompt_of jd (strip c)"
  define w3 where "w3 = snd (izveidot_promptu jd (strip c) (py_print (verteju_msg cv) w))"
  have p3: "izveidot_promptu jd (strip c) (py_print (verteju_msg cv) w) = (Inr q, w3)"
    unfolding q_def w3_def using p by (simp add: prod_eq_iff izveidot_promptu_fst)
  have t3: "tick w3 = tick w" by (simp add: w3_def)
  obtain w4 where c4: "izsaukt_modeli e q w3 = (Inr r, w4)"
    using r izsaukt_modeli_fst [OF t3, of e q] unfolding q_def [symmetric]
    by (metis prod.collapse)
  have ok: "OpenAI e (API_KEY e) = None"
    using c4 by (cases "OpenAI e (API_KEY e)") (simp_all add: izsaukt_modeli_def)
  have w4: "files w4 = files w3" "written w4 = written w3" "tick w4 = Suc (tick w)"
    "sample_inputs w4 = sample_inputs w3"
    using izsaukt_modeli_world [of e q w3] c4 ok t3 by simp_all
  have "main_body e jd cv w =
             (case saglabat_json e r (json_cels cv) w4 of
                (Some err, w5) \<Rightarrow> (Some err, w5)
              | (None, w5) \<Rightarrow>
                  (case genereet_parskatu e r (md_cels cv) w5 of
                     (Some err, w6) \<Rightarrow> (Some err, w6)
                   | (None, w6) \<Rightarrow>
                       (None, py_print (sagatavots_msg (json_cels cv) (md_cels cv)) w6)))"
    using c p3 c4 by (simp add: main_body_def nolasit_failu_def Let_def)
  moreover have "files w4 = (files w)(asc ''prompt.md'' \<mapsto> q)"
    using p by (simp add: w4 w3_def q_def)
  moreover have "written w4 = written w @ [asc ''prompt.md'']" by (simp add: w4 w3_def)
  moreover have "sample_inputs w4 = sample_inputs w" by (simp add: w4 w3_def)
  ultimately show ?thesis using w4(3) unfolding q_def by blast
qed

lemma main_body_processed:
  assumes c: "files w (asc ''sample_inputs/'' @ cv) = Some c" "strip c \<noteq> []"
    and p: "encodable (prompt_of jd (strip c))"
    and r: "fst (izsaukt_modeli e (prompt_of jd (strip c)) w) = Inr r"
    and s: "dump_error e r = None"
    and d: "parskats e (asc (strftime_now e (Suc (tick w)))) r = Inr doc" "encodable (strip doc)"
  shows "fst (main_body e jd cv w) = None"
    and "written (snd (main_body e jd cv w)) =
           written w @ [asc ''prompt.md'', json_cels cv, md_cels cv]"
    and "files (snd (main_body e jd cv w)) =
           (files w)(asc ''prompt.md'' \<mapsto> prompt_of jd (strip c),
                     json_cels cv \<mapsto> dump_text e r, md_cels cv \<mapsto> strip doc)"
    and "tick (snd (main_body e jd cv w)) = Suc (Suc (tick w))"
    and "sample_inputs (snd (main_body e jd cv w)) = sample_inputs w"
proof -
  obtain w4 where w4: "files w4 = (files w)(asc ''prompt.md'' \<mapsto> prompt_of jd (strip c))"
      "written w4 = written w @ [asc ''prompt.md'']" "tick w4 = Suc (tick w)"
      "sample_inputs w4 = sample_inputs w"
    and mb: "main_body e jd cv w =
             (case saglabat_json e r (json_cels cv) w4 of
                (Some err, w5) \<Rightarrow> (Some err, w5)
              | (None, w5) \<Rightarrow>
                  (case genereet_parskatu e r (md_cels cv) w5 of
                     (Some err, w6) \<Rightarrow> (Some err, w6)
                   | (None, w6) \<Rightarrow>
                       (None, py_print (sagatavots_msg (json_cels cv) (md_cels cv)) w6)))"
    using main_body_nonempty [OF c p r] by blast
  define w5 where "w5 = snd (saglabat_json e r (json_cels cv) w4)"
  have s5: "saglabat_json e r (json_cels cv) w4 = (None, w5)"
    using s by (simp add: w5_def prod_eq_iff)
  have t5: "tick w5 = Suc (tick w)" by (simp add: w5_def w4)
  have g: "genereet_parskatu e r (md_cels cv) w5 =
             (None, (next_tick w5)\<lparr>files := (files w5)(md_cels cv \<mapsto> strip doc),
                                    written := written w5 @ [md_cels cv]\<rparr>)"
    by (rule genereet_parskatu_ok) (simp_all add: t5 d)
  have mb': "main_body e jd cv w =
               (None, py_print (sagatavots_msg (json_cels cv) (md_cels cv))
                        ((next_tick w5)\<lparr>files := (files w5)(md_cels cv \<mapsto> strip doc),
                                         written := written w5 @ [md_cels cv]\<rparr>))"
    by (simp add: mb s5 g)
  show "fst (main_body e jd cv w) = None" by (simp add: mb')
  show "written (snd (main_body e jd cv w)) =
          written w @ [asc ''prompt.md'', json_cels cv, md_cels cv]"
    by (simp add: mb' w5_def w4)
  show "files (snd (main_body e jd cv w)) =
           (files w)(asc ''prompt.md'' \<mapsto> prompt_of jd (strip c),
                     json_cels cv \<mapsto> dump_text e r, md_cels cv \<mapsto> strip doc)"
    by (simp add: mb' w5_def w4)
  show "tick (snd (main_body e jd cv w)) = Suc (Suc (tick w))"
    by (simp add: mb' t5)
  show "sample_inputs (snd (main_body e jd cv w)) = sample_inputs w"
    by (simp add: mb' w5_def w4)
qed




lemma main_body_client_fails:
  assumes c: "files w (asc ''sample_inputs/'' @ cv) = Some c" "strip c \<noteq> []"
    and p: "encodable (prompt_of jd (strip c))"
    and m: "OpenAI e (API_KEY e) = Some m"
  shows "fst (main_body e jd cv w) = Some (OpenAIError m)"
    and "written (snd (main_body e jd cv w)) = written w @ [asc ''prompt.md'']"
    and "files (snd (main_body e jd cv w)) =
           (files w)(asc ''prompt.md'' \<mapsto> prompt_of jd (strip c))"
  using c m p
  by (simp_all add: main_body_def nolasit_failu_def Let_def izsaukt_modeli_raises
        izveidot_promptu_ok)





subsection \<open>The loop and main\<close>






lemma main_with_jd:
  assumes "files w jd_cels = Some t" "strip t \<noteq> []"
  shows "main e w =
           (case main_loop e (strip t) (filter glob_cv (sample_inputs w)) (py_print palaists_msg w) of
              (Some err, w2) \<Rightarrow> (Some err, w2)
            | (None, w2) \<Rightarrow> (None, py_print visi_msg w2))"
  using assms by (simp add: main_def nolasit_failu_def Let_def)

lemma main_one_candidate:
  assumes "files w jd_cels = Some t" "strip t \<noteq> []" "filter glob_cv (sample_inputs w) = [cv]"
  shows "main e w =
           (case main_body e (strip t) cv (py_print palaists_msg w) of
              (Some err, w2) \<Rightarrow> (Some err, w2)
            | (None, w2) \<Rightarrow> (None, py_print visi_msg w2))"
  using assms by (simp add: main_with_jd split: prod.split option.split)

lemma main_one_candidate_proj:
  assumes "files w jd_cels = Some t" "strip t \<noteq> []" "filter glob_cv (sample_inputs w) = [cv]"
  shows "fst (main e w) = fst (main_body e (strip t) cv (py_print palaists_msg w))"
    and "written (snd (main e w)) = written (snd (main_body e (strip t) cv (py_print palaists_msg w)))"
    and "files (snd (main e w)) = files (snd (main_body e (strip t) cv (py_print palaists_msg w)))"
  by (simp_all add: main_one_candidate [OF assms] split: prod.split option.split)

subsection \<open>The concrete runs\<close>

lemma demo_env_simps [simp]:
  "API_KEY (demo_env key svc) = key"
  "OpenAI (demo_env key svc) = openai_ctor"
  "chat_create (demo_env key svc) = svc"
  "json_loads (demo_env key svc) = demo_loads"
  "json_dump (demo_env key svc) = demo_dump"
  "py_repr (demo_env key svc) = (\<lambda>v. Inr [])"
  "strftime_now (demo_env key svc) n = ''2025-11-03 09:15''"
  by (simp_all add: demo_env_def)

lemma world_of_simps [simp]:
  "files (world_of fs names) = map_of fs"
  "sample_inputs (world_of fs names) = names"
  "console (world_of fs names) = []"
  "written (world_of fs names) = []"
  "tick (world_of fs names) = 0"
  by (simp_all add: world_of_def)

lemma openai_ctor_key [simp]: "openai_ctor atslega = None" "openai_ctor None = Some missing_key_msg"
  by (simp_all add: openai_ctor_def atslega_def)

lemma alice_files:
  "files alice_world jd_cels = Some jd_alice"
  "files alice_world (asc ''sample_inputs/'' @ asc ''cv_alice.txt'') = Some cv_alice"
  "filter glob_cv (sample_inputs alice_world) = [asc ''cv_alice.txt'']"
  by (simp_all add: alice_world_def jd_cels_def asc_def glob_cv_def suffix_def)

lemma alice_texts:
  "strip jd_alice = jd_alice" "strip cv_alice = cv_alice" "jd_alice \<noteq> []" "cv_alice \<noteq> []"
  by (simp_all add: jd_alice_def cv_alice_def asc_def strip_def isspace_def)

lemma alice_world_simps:
  "console alice_world = []" "written alice_world = []" "tick alice_world = 0"
  by (simp_all add: alice_world_def)

lemma alice_cels:
  "json_cels (asc ''cv_alice.txt'') = asc ''outputs/cv_alice.json''"
  "md_cels (asc ''cv_alice.txt'') = asc ''outputs/cv_alice_report.md''"
  by (simp_all add: json_cels_def md_cels_def split_dot_0_def asc_def)


lemma alice_encodable [simp]:
  "encodable jd_alice" "encodable cv_alice" "encodable cv_otrs" "encodable alice_kopsavilkums"
  by (simp_all add: jd_alice_def cv_alice_def cv_otrs_def alice_kopsavilkums_def)

lemma dzils_hd: "hd dzils_teksts = 91" "dzils_teksts \<noteq> []"
  by (simp_all add: dzils_teksts_def)

lemma demo_texts_hd:
  "hd alice_teksts = 123" "hd null_teksts = 123" "hd surogats_teksts = 123"
  "hd nederigs_teksts = 83"
  by (simp_all add: alice_teksts_def null_teksts_def surogats_teksts_def nederigs_teksts_def asc_def)

lemma dzils_neq:
  "dzils_teksts \<noteq> alice_teksts" "dzils_teksts \<noteq> null_teksts" "dzils_teksts \<noteq> surogats_teksts"
  "nederigs_teksts \<noteq> dzils_teksts" "[55357] \<noteq> dzils_teksts"
  using dzils_hd(1) demo_texts_hd by (auto dest: arg_cong [of _ _ hd])

lemma demo_texts_neq:
  "null_teksts \<noteq> alice_teksts" "surogats_teksts \<noteq> alice_teksts" "surogats_teksts \<noteq> null_teksts"
  "nederigs_teksts \<noteq> alice_teksts" "nederigs_teksts \<noteq> null_teksts"
  "nederigs_teksts \<noteq> surogats_teksts"
  "[55357] \<noteq> alice_teksts" "[55357] \<noteq> null_teksts" "[55357] \<noteq> surogats_teksts"
  by (simp_all add: null_teksts_def alice_teksts_def surogats_teksts_def nederigs_teksts_def asc_def)

lemma demo_loads_simps:
  "demo_loads alice_teksts = Parsed (alice_rezultats alice_kopsavilkums)"
  "demo_loads null_teksts = Parsed null_rezultats"
  "demo_loads surogats_teksts = Parsed surogats_rezultats"
  "demo_loads dzils_teksts = LoadsRaises dzils_msg"
  "demo_loads nederigs_teksts = JSONDecodeError"
  "demo_loads [55357] = JSONDecodeError"
  by (simp_all add: demo_loads_def demo_texts_neq dzils_neq)

lemma demo_dump_simps:
  "demo_dump (alice_rezultats alice_kopsavilkums) = (alice_chunks, None)"
  "demo_dump null_rezultats = (null_chunks, None)"
  "demo_dump surogats_rezultats = (surogats_chunks, None)"
  "demo_dump (nederigs_ieraksts nederigs_teksts) = (nederigs_chunks, None)"
  "demo_dump (nederigs_ieraksts [55357]) = (viens_surogats_chunks, None)"
  "demo_dump kluda_rezultats = (kluda_chunks, None)"
  by (simp_all add: demo_dump_def alice_rezultats_def null_rezultats_def nederigs_rezultats_def
        surogats_rezultats_def nederigs_ieraksts_def kluda_rezultats_def kludas_ieraksts_def
        nederigs_teksts_def asc_def)

text \<open>The dumps that reach the file whole.\<close>

lemma demo_dump_ok:
  "dump_error (demo_env key svc) (alice_rezultats alice_kopsavilkums) = None"
  "dump_text (demo_env key svc) (alice_rezultats alice_kopsavilkums) = alice_json"
  "dump_error (demo_env key svc) null_rezultats = None"
  "dump_error (demo_env key svc) (nederigs_ieraksts nederigs_teksts) = None"
  "dump_text (demo_env key svc) (nederigs_ieraksts nederigs_teksts) = nederigs_json"
  "dump_error (demo_env key svc) kluda_rezultats = None"
  "dump_text (demo_env key svc) kluda_rezultats = kluda_json"
proof -
  let ?e = "demo_env key svc"
  have a: "list_all encodable alice_chunks" by (simp add: alice_chunks_def)
  have n: "list_all encodable null_chunks" by (simp add: null_chunks_def)
  have d: "list_all encodable nederigs_chunks" by (simp add: nederigs_chunks_def)
  have k: "list_all encodable kluda_chunks" by (simp add: kluda_chunks_def)
  have ja: "json_dump ?e (alice_rezultats alice_kopsavilkums) = (alice_chunks, None)"
    and jn: "json_dump ?e null_rezultats = (null_chunks, None)"
    and jd: "json_dump ?e (nederigs_ieraksts nederigs_teksts) = (nederigs_chunks, None)"
    and jk: "json_dump ?e kluda_rezultats = (kluda_chunks, None)"
    by (simp_all add: demo_dump_simps)
  show "dump_error ?e (alice_rezultats alice_kopsavilkums) = None" by (rule dump_all [OF ja a])
  show "dump_error ?e null_rezultats = None" by (rule dump_all [OF jn n])
  show "dump_error ?e (nederigs_ieraksts nederigs_teksts) = None" by (rule dump_all [OF jd d])
  show "dump_error ?e kluda_rezultats = None" by (rule dump_all [OF jk k])
  have "concat alice_chunks = alice_json" by (simp add: alice_chunks_def alice_json_def asc_def)
  then show "dump_text ?e (alice_rezultats alice_kopsavilkums) = alice_json"
    using dump_all(2) [OF ja a] by simp
  have "concat nederigs_chunks = nederigs_json"
    by (simp add: nederigs_chunks_def nederigs_json_def asc_def)
  then show "dump_text ?e (nederigs_ieraksts nederigs_teksts) = nederigs_json"
    using dump_all(2) [OF jd d] by simp
  have "concat kluda_chunks = kluda_json" by (simp add: kluda_chunks_def kluda_json_def asc_def)
  then show "dump_text ?e kluda_rezultats = kluda_json"
    using dump_all(2) [OF jk k] by simp
qed




lemma parskats_alice:
  "parskats e datums (alice_rezultats s) =
     Inr (parskats_veidne datums (asc ''72'') s (asc ''- Go expertise'' @ [10])
            (asc ''- 5 years seniority'' @ [10]) (asc ''possible match''))"
  by (simp add: parskats_def alice_rezultats_def dict_get_def saraksts_def py_format_def
        int_format_def int_str_def digits.simps asc_def)


lemma main_body_alice:
  assumes cv: "files w (asc ''sample_inputs/'' @ asc ''cv_alice.txt'') = Some c" "strip c \<noteq> []"
    and en: "encodable jd" "encodable c" "encodable s"
    and k: "OpenAI e (API_KEY e) = None"
    and rep: "chat_create e (tick w) (prompt_of jd (strip c)) = Content (Some t)"
    and par: "json_loads e t = Parsed (alice_rezultats s)"
    and dump: "dump_error e (alice_rezultats s) = None"
  shows "fst (main_body e jd (asc ''cv_alice.txt'') w) = None"
    and "files (snd (main_body e jd (asc ''cv_alice.txt'') w)) (asc ''outputs/cv_alice.json'')
           = Some (dump_text e (alice_rezultats s))"
    and "files (snd (main_body e jd (asc ''cv_alice.txt'') w)) (asc ''outputs/cv_alice_report.md'')
           = Some (parskats_kermenis (asc (strftime_now e (Suc (tick w)))) (asc ''72'') s
                     (asc ''- Go expertise'' @ [10]) (asc ''- 5 years seniority'' @ [10])
                     (asc ''possible match''))"
proof -
  have p: "encodable (prompt_of jd (strip c))"
    using en by (simp add: encodable_prompt encodable_strip)
  have r: "fst (izsaukt_modeli e (prompt_of jd (strip c)) w) = Inr (alice_rezultats s)"
    using k rep par by (rule izsaukt_modeli_parsed)
  have d: "encodable (strip (parskats_veidne (asc (strftime_now e (Suc (tick w)))) (asc ''72'') s
             (asc ''- Go expertise'' @ [10]) (asc ''- 5 years seniority'' @ [10])
             (asc ''possible match'')))"
    using en(3) by (simp add: strip_veidne_kermenis encodable_kermenis)
  note f = main_body_processed [OF cv p r dump parskats_alice d]
  have o: "asc ''outputs/cv_alice.json'' \<noteq> asc ''outputs/cv_alice_report.md''"
    by (simp add: asc_def)
  show "fst (main_body e jd (asc ''cv_alice.txt'') w) = None" by (rule f(1))
  show "files (snd (main_body e jd (asc ''cv_alice.txt'') w)) (asc ''outputs/cv_alice.json'')
           = Some (dump_text e (alice_rezultats s))"
    by (simp add: f(3) alice_cels o)
  show "files (snd (main_body e jd (asc ''cv_alice.txt'') w)) (asc ''outputs/cv_alice_report.md'')
           = Some (parskats_kermenis (asc (strftime_now e (Suc (tick w)))) (asc ''72'') s
                     (asc ''- Go expertise'' @ [10]) (asc ''- 5 years seniority'' @ [10])
                     (asc ''possible match''))"
    by (simp add: f(3) alice_cels strip_veidne_kermenis)
qed





section \<open>The claims\<close>

subsection \<open>C1: one report pair for each candidate with text\<close>




subsection \<open>C2: exceptions of the model call\<close>

text \<open>
  C2. The claim is that no exception leaves \<open>izsaukt_modeli\<close>, a failure to construct
  the client included. The client is constructed before the \<^verbatim>\<open>try\<close>: with the variable
  \<^verbatim>\<open>OPENAI_API_KEY\<close> unset the constructor raises, the exception leaves
  \<open>izsaukt_modeli\<close> for every prompt and service, and in \<open>main\<close> it ends the run of the
  example after the prompt file is written, with no report for the candidate.
\<close>

theorem izsaukt_modeli_no_key:
  "izsaukt_modeli (demo_env None svc) prompt w = (Inl (OpenAIError missing_key_msg), w)
   \<and> fst (main (demo_env None svc) alice_world) = Some (OpenAIError missing_key_msg)
   \<and> written (snd (main (demo_env None svc) alice_world)) = [asc ''prompt.md'']"
proof -
  have k: "OpenAI (demo_env None svc) (API_KEY (demo_env None svc)) = Some missing_key_msg"
    by (simp add: openai_ctor_def)
  have c: "files (py_print palaists_msg alice_world) (asc ''sample_inputs/'' @ asc ''cv_alice.txt'')
             = Some cv_alice"
    by (simp add: alice_files)
  have t: "strip cv_alice \<noteq> []" by (simp add: alice_texts)
  have p: "encodable (prompt_of jd_alice (strip cv_alice))"
    by (simp add: encodable_prompt encodable_strip)
  note f = main_body_client_fails [OF c t p k]
  have b: "written (snd (main_body (demo_env None svc) jd_alice (asc ''cv_alice.txt'')
                (py_print palaists_msg alice_world))) = [asc ''prompt.md'']"
    using f(2) by (simp add: alice_world_simps)
  note m = main_one_candidate_proj [of alice_world jd_alice "asc ''cv_alice.txt''" "demo_env None svc",
      unfolded alice_texts, OF alice_files(1) alice_texts(3) alice_files(3)]
  show ?thesis
    using f(1) b by (simp add: m izsaukt_modeli_raises [OF k])
qed

subsection \<open>C3: a reply that is no JSON\<close>




subsection \<open>C4: no job description\<close>

text \<open>
  C4. When the file \<^verbatim>\<open>sample_inputs/jd.txt\<close> is absent, \<open>main\<close> returns without an
  exception after printing the start line, the warning of \<open>nolasit_failu\<close> and the fatal
  message; nothing else is printed, no file is written or changed and neither the service
  nor the clock is used, so no candidate is processed.
\<close>

theorem main_no_jd:
  assumes "files w jd_cels = None"
  shows "main e w =
           (None, w\<lparr>console := console w @ [palaists_msg, nevar_atrast_msg jd_cels, nav_jd_msg]\<rparr>)
         \<and> files (snd (main e w)) = files w
         \<and> written (snd (main e w)) = written w
         \<and> tick (snd (main e w)) = tick w"
  using assms by (simp add: main_def nolasit_failu_def py_print_def)

theorem main_no_jd_witness:
  "files no_jd_world jd_cels = None
   \<and> main (demo_env atslega (\<lambda>n p. Content (Some alice_teksts))) no_jd_world =
       (None, no_jd_world\<lparr>console := [palaists_msg, nevar_atrast_msg jd_cels, nav_jd_msg]\<rparr>)
   \<and> written (snd (main (demo_env atslega (\<lambda>n p. Content (Some alice_teksts))) no_jd_world)) = []"
proof -
  have h: "files no_jd_world jd_cels = None"
    by (simp add: no_jd_world_def jd_cels_def asc_def)
  show ?thesis
    using h main_no_jd [OF h, of "demo_env atslega (\<lambda>n p. Content (Some alice_teksts))"]
    by (simp add: no_jd_world_def)
qed

subsection \<open>C5: the report of a dict with missing fields\<close>




subsection \<open>C6: the run for cv_alice.txt\<close>

text \<open>
  C6 as stated fails on the text of the score line. In the run of the scenario the
  Markdown report is \<open>alice_parskats\<close>; the text \<^verbatim>\<open>Atbilstibas punktu skaits: 72\<close> (with
  the Latvian letter of the source) is no part of it, because the template puts the
  label in bold and the marker \<^verbatim>\<open>**\<close> stands between the colon and the score.
\<close>

theorem alice_scenario_counterexample:
  "files (snd (main (demo_env atslega (\<lambda>n p. Content (Some alice_teksts))) alice_world))
     (asc ''outputs/cv_alice_report.md'') = Some alice_parskats
   \<and> \<not> sublist (asc ''Atbilst'' @ [299] @ asc ''bas punktu skaits: 72'') alice_parskats"
proof -
  let ?e = "demo_env atslega (\<lambda>n p. Content (Some alice_teksts))"
  let ?w = "py_print palaists_msg alice_world"
  have c: "files ?w (asc ''sample_inputs/'' @ asc ''cv_alice.txt'') = Some cv_alice"
    by (simp add: alice_files)
  have t: "strip cv_alice \<noteq> []" by (simp add: alice_texts)
  have k: "OpenAI ?e (API_KEY ?e) = None" by simp
  have p: "chat_create ?e (tick ?w) (prompt_of jd_alice (strip cv_alice))
             = Content (Some alice_teksts)" by simp
  have l: "json_loads ?e alice_teksts = Parsed (alice_rezultats alice_kopsavilkums)"
    by (simp add: demo_loads_simps)
  note f = main_body_alice [OF c t alice_encodable(1,2,4) k p l demo_dump_ok(1)]
  note m = main_one_candidate_proj [of alice_world jd_alice "asc ''cv_alice.txt''" ?e,
      unfolded alice_texts, OF alice_files(1) alice_texts(3) alice_files(3)]
  have a: "files (snd (main ?e alice_world)) (asc ''outputs/cv_alice_report.md'') = Some alice_parskats"
    by (simp add: m f alice_parskats_def)
  have n: "\<not> sublist (asc ''Atbilst'' @ [299] @ asc ''bas punktu skaits: 72'') alice_parskats"
    by (simp add: alice_parskats_def alice_kopsavilkums_def parskats_kermenis_def virsraksts_def
          datums_rinda_def punkti_rinda_def atdalitajs_def kopsavilkums_dala_def stipras_dala_def
          trukstosas_dala_def spriedums_dala_def asc_def sublist_code)
  show ?thesis using a n by simp
qed

text \<open>
  C6, amended. When the only candidate file is \<^verbatim>\<open>cv_alice.txt\<close>, it and the job
  description have text, the client can be constructed, the reply parses to the object
  of the scenario with a summary \<open>s\<close> that holds no lone surrogate, and \<^verbatim>\<open>json.dump\<close> of
  that object raises nothing, \<open>main\<close> ends without an exception,
  \<^verbatim>\<open>outputs/cv_alice.json\<close> holds the dump of exactly that object, and
  \<^verbatim>\<open>outputs/cv_alice_report.md\<close> is the report with the score line
  \<^verbatim>\<open>**Atbilstibas punktu skaits:** 72\<close> and the verdict line \<^verbatim>\<open>**possible match**\<close>.
\<close>

theorem alice_scenario:
  assumes "files w jd_cels = Some j" and "strip j \<noteq> []" and "encodable j"
    and "filter glob_cv (sample_inputs w) = [asc ''cv_alice.txt'']"
    and "files w (asc ''sample_inputs/'' @ asc ''cv_alice.txt'') = Some c" and "strip c \<noteq> []"
    and "encodable c"
    and "OpenAI e (API_KEY e) = None"
    and "chat_create e (tick w) (prompt_of (strip j) (strip c)) = Content (Some t)"
    and "json_loads e t = Parsed (alice_rezultats s)"
    and "encodable s"
    and "dump_error e (alice_rezultats s) = None"
  shows "fst (main e w) = None
         \<and> files (snd (main e w)) (asc ''outputs/cv_alice.json'') = Some (dump_text e (alice_rezultats s))
         \<and> files (snd (main e w)) (asc ''outputs/cv_alice_report.md'')
             = Some (parskats_kermenis (asc (strftime_now e (Suc (tick w)))) (asc ''72'') s
                       (asc ''- Go expertise'' @ [10]) (asc ''- 5 years seniority'' @ [10])
                       (asc ''possible match''))
         \<and> has_line (asc ''**Atbilst'' @ [299] @ asc ''bas punktu skaits:** 72'')
               (parskats_kermenis (asc (strftime_now e (Suc (tick w)))) (asc ''72'') s
                  (asc ''- Go expertise'' @ [10]) (asc ''- 5 years seniority'' @ [10])
                  (asc ''possible match''))
         \<and> has_line (asc ''**possible match**'')
               (parskats_kermenis (asc (strftime_now e (Suc (tick w)))) (asc ''72'') s
                  (asc ''- Go expertise'' @ [10]) (asc ''- 5 years seniority'' @ [10])
                  (asc ''possible match''))"
proof -
  let ?w = "py_print palaists_msg w"
  have c: "files ?w (asc ''sample_inputs/'' @ asc ''cv_alice.txt'') = Some c"
    using assms(5) by simp
  have j: "encodable (strip j)" using assms(3) by (rule encodable_strip)
  have p: "chat_create e (tick ?w) (prompt_of (strip j) (strip c)) = Content (Some t)"
    using assms(9) by simp
  note f = main_body_alice [OF c assms(6) j assms(7) assms(11) assms(8) p assms(10) assms(12)]
  note m = main_one_candidate_proj [OF assms(1) assms(2) assms(4), of e]
  have l1: "has_line (asc ''**Atbilst'' @ [299] @ asc ''bas punktu skaits:** 72'')
               (parskats_kermenis (asc (strftime_now e (Suc (tick w)))) (asc ''72'') s
                  (asc ''- Go expertise'' @ [10]) (asc ''- 5 years seniority'' @ [10])
                  (asc ''possible match''))"
    using kermenis_lines(1) [of "asc ''72''"] by (simp add: punkti_rinda_def asc_def)
  have l2: "has_line (asc ''**possible match**'')
               (parskats_kermenis (asc (strftime_now e (Suc (tick w)))) (asc ''72'') s
                  (asc ''- Go expertise'' @ [10]) (asc ''- 5 years seniority'' @ [10])
                  (asc ''possible match''))"
    using kermenis_verdict_line [of "asc ''possible match''"] by (simp add: asc_def)
  show ?thesis using l1 l2 by (simp add: m f)
qed

theorem alice_scenario_witness:
  "files alice_world jd_cels = Some jd_alice \<and> strip jd_alice \<noteq> [] \<and> encodable jd_alice
   \<and> filter glob_cv (sample_inputs alice_world) = [asc ''cv_alice.txt'']
   \<and> files alice_world (asc ''sample_inputs/'' @ asc ''cv_alice.txt'') = Some cv_alice
   \<and> strip cv_alice \<noteq> [] \<and> encodable cv_alice
   \<and> json_loads (demo_env atslega (\<lambda>n p. Content (Some alice_teksts))) alice_teksts
       = Parsed (alice_rezultats alice_kopsavilkums)
   \<and> encodable alice_kopsavilkums
   \<and> dump_error (demo_env atslega (\<lambda>n p. Content (Some alice_teksts)))
        (alice_rezultats alice_kopsavilkums) = None
   \<and> fst (main (demo_env atslega (\<lambda>n p. Content (Some alice_teksts))) alice_world) = None
   \<and> files (snd (main (demo_env atslega (\<lambda>n p. Content (Some alice_teksts))) alice_world))
        (asc ''outputs/cv_alice.json'') = Some alice_json
   \<and> files (snd (main (demo_env atslega (\<lambda>n p. Content (Some alice_teksts))) alice_world))
        (asc ''outputs/cv_alice_report.md'') = Some alice_parskats
   \<and> has_line (asc ''**Atbilst'' @ [299] @ asc ''bas punktu skaits:** 72'') alice_parskats
   \<and> has_line (asc ''**possible match**'') alice_parskats"
proof -
  let ?e = "demo_env atslega (\<lambda>n p. Content (Some alice_teksts))"
  have j: "strip jd_alice \<noteq> []" and t: "strip cv_alice \<noteq> []" by (simp_all add: alice_texts)
  have k: "OpenAI ?e (API_KEY ?e) = None" by simp
  have p: "chat_create ?e (tick alice_world) (prompt_of (strip jd_alice) (strip cv_alice))
             = Content (Some alice_teksts)" by simp
  have l: "json_loads ?e alice_teksts = Parsed (alice_rezultats alice_kopsavilkums)"
    by (simp add: demo_loads_simps)
  have s: "dump_error ?e (alice_rezultats alice_kopsavilkums) = None" by (rule demo_dump_ok)
  show ?thesis
    using j t l s alice_files
      alice_scenario [OF alice_files(1) j alice_encodable(1) alice_files(3) alice_files(2) t
        alice_encodable(2) k p l alice_encodable(4) s]
    by (simp add: alice_parskats_def demo_dump_ok alice_world_simps)
qed

subsection \<open>C7: a candidate without text\<close>

text \<open>
  C7. When the text loaded for a candidate is empty, the body of the loop writes no file,
  prints the warning that the candidate is skipped and ends without an exception, and the
  loop goes on with the remaining candidates from that state.
\<close>

theorem skip_empty_candidate:
  assumes "fst (nolasit_failu (asc ''sample_inputs/'' @ cv) w) = []"
  shows "main_body e jd cv w =
           (None, py_print (izlaiz_msg cv) (snd (nolasit_failu (asc ''sample_inputs/'' @ cv) w)))
         \<and> files (snd (main_body e jd cv w)) = files w
         \<and> written (snd (main_body e jd cv w)) = written w
         \<and> tick (snd (main_body e jd cv w)) = tick w
         \<and> last (console (snd (main_body e jd cv w))) = izlaiz_msg cv
         \<and> main_loop e jd (cv # rest) w = main_loop e jd rest (snd (main_body e jd cv w))"
  using main_body_skip [OF assms] by (simp add: nolasit_failu_simps)

theorem skip_empty_candidate_witness:
  "fst (nolasit_failu (asc ''sample_inputs/'' @ asc ''cv_empty.txt'') blank_world) = []
   \<and> written (snd (main_body (demo_env atslega (\<lambda>n p. Content (Some alice_teksts))) jd_alice
         (asc ''cv_empty.txt'') blank_world)) = []
   \<and> console (snd (main_body (demo_env atslega (\<lambda>n p. Content (Some alice_teksts))) jd_alice
         (asc ''cv_empty.txt'') blank_world)) = [izlaiz_msg (asc ''cv_empty.txt'')]
   \<and> main_loop (demo_env atslega (\<lambda>n p. Content (Some alice_teksts))) jd_alice
         [asc ''cv_empty.txt'', asc ''cv_alice.txt''] blank_world =
       main_loop (demo_env atslega (\<lambda>n p. Content (Some alice_teksts))) jd_alice
         [asc ''cv_alice.txt'']
         (snd (main_body (demo_env atslega (\<lambda>n p. Content (Some alice_teksts))) jd_alice
            (asc ''cv_empty.txt'') blank_world))"
proof -
  have f: "files blank_world (asc ''sample_inputs/'' @ asc ''cv_empty.txt'') = Some []"
    by (simp add: blank_world_def jd_cels_def asc_def)
  have h: "fst (nolasit_failu (asc ''sample_inputs/'' @ asc ''cv_empty.txt'') blank_world) = []"
    by (simp add: nolasit_failu_def f strip_def)
  have w: "snd (nolasit_failu (asc ''sample_inputs/'' @ asc ''cv_empty.txt'') blank_world) = blank_world"
    by (simp add: nolasit_failu_def f)
  have b: "console blank_world = []" "written blank_world = []"
    by (simp_all add: blank_world_def)
  note s = skip_empty_candidate [OF h, of "demo_env atslega (\<lambda>n p. Content (Some alice_teksts))"
        jd_alice "[asc ''cv_alice.txt'']"]
  have m: "snd (main_body (demo_env atslega (\<lambda>n p. Content (Some alice_teksts))) jd_alice
         (asc ''cv_empty.txt'') blank_world) = py_print (izlaiz_msg (asc ''cv_empty.txt'')) blank_world"
    using s by (simp add: w)
  show ?thesis using h s by (simp add: m b w)
qed

subsection \<open>C8: the prompt and its debug file\<close>




subsection \<open>C9: files of white space\<close>

text \<open>
  C9. A job description file that holds only white space (or nothing) makes \<open>main\<close>
  return after the start line and the fatal message, with no file written and no
  candidate processed; the run without the file ends the same way, with the warning of
  \<open>nolasit_failu\<close> printed in between. A candidate file that holds only white space
  is skipped with the same warning and the same unchanged state as the zero-length file
  in its place.
\<close>

theorem blank_is_empty:
  assumes "\<forall>c\<in>set t. isspace c" and "\<forall>c\<in>set u. isspace c"
  shows "(files w jd_cels = Some t \<longrightarrow>
            main e w = (None, w\<lparr>console := console w @ [palaists_msg, nav_jd_msg]\<rparr>)
            \<and> main e (w\<lparr>files := (files w)(jd_cels := None)\<rparr>) =
                (None, w\<lparr>files := (files w)(jd_cels := None),
                          console := console w @ [palaists_msg, nevar_atrast_msg jd_cels, nav_jd_msg]\<rparr>))
         \<and> (files w (asc ''sample_inputs/'' @ cv) = Some u \<longrightarrow>
              main_body e jd cv w = (None, py_print (izlaiz_msg cv) w)
              \<and> main_body e jd cv (w\<lparr>files := (files w)(asc ''sample_inputs/'' @ cv \<mapsto> [])\<rparr>) =
                  (None, py_print (izlaiz_msg cv)
                           (w\<lparr>files := (files w)(asc ''sample_inputs/'' @ cv \<mapsto> [])\<rparr>)))"
proof -
  have s: "strip t = []" "strip u = []" "strip [] = []"
    using assms by (simp_all add: strip_Nil_iff)
  show ?thesis
    by (simp add: main_def main_body_def nolasit_failu_def py_print_def s)
qed

theorem blank_is_empty_witness:
  "isspace 32 \<and> isspace 10 \<and> isspace 9
   \<and> files blank_world jd_cels = Some [32, 32, 10]
   \<and> files blank_world (asc ''sample_inputs/'' @ asc ''cv_blank.txt'') = Some [9, 10]
   \<and> main (demo_env atslega (\<lambda>n p. Content (Some alice_teksts))) blank_world =
       (None, blank_world\<lparr>console := [palaists_msg, nav_jd_msg]\<rparr>)
   \<and> main_body (demo_env atslega (\<lambda>n p. Content (Some alice_teksts))) jd_alice
        (asc ''cv_blank.txt'') blank_world =
       (None, py_print (izlaiz_msg (asc ''cv_blank.txt'')) blank_world)"
proof -
  have a: "\<forall>c\<in>set [32, 32, 10]. isspace c" and b: "\<forall>c\<in>set [9, 10]. isspace c"
    by (simp_all add: isspace_def)
  have f: "files blank_world jd_cels = Some [32, 32, 10]"
    "files blank_world (asc ''sample_inputs/'' @ asc ''cv_blank.txt'') = Some [9, 10]"
    by (simp_all add: blank_world_def jd_cels_def asc_def)
  show ?thesis
    using a b f blank_is_empty [OF a b, of blank_world
        "demo_env atslega (\<lambda>n p. Content (Some alice_teksts))" "asc ''cv_blank.txt''" jd_alice]
    by (simp add: blank_world_def)
qed

subsection \<open>C10: the base name of the reports\<close>



end
